theory Spec2Isabelle
  imports Complex_Main
begin

section \<open>Values shared by the weather service and the scheduler\<close>

text \<open>
  JavaScript exceptions are values: every \<^verbatim>\<open>throw\<close> of the source and
  every runtime \<^verbatim>\<open>TypeError\<close> / \<^verbatim>\<open>RangeError\<close> is the left
  injection of a sum.  Measurements are JavaScript numbers, modelled as reals (rounding is
  not modelled); Unix timestamps and clock readings are integers.
\<close>

datatype error = TypeError | RangeError | Error string

definition bindE :: "error + 'a \<Rightarrow> ('a \<Rightarrow> error + 'b) \<Rightarrow> error + 'b" where
  "bindE r f = (case r of Inl e \<Rightarrow> Inl e | Inr x \<Rightarrow> f x)"

fun traverse :: "('a \<Rightarrow> error + 'b) \<Rightarrow> 'a list \<Rightarrow> error + 'b list" where
  "traverse f [] = Inr []"
| "traverse f (x # xs) =
     (case f x of
        Inl e \<Rightarrow> Inl e
      | Inr y \<Rightarrow> (case traverse f xs of Inl e \<Rightarrow> Inl e | Inr ys \<Rightarrow> Inr (y # ys)))"

record Position =
  latitude :: real
  longitude :: real

text \<open>\<^verbatim>\<open>Math.PI\<close>, the double nearest to \<open>\<pi>\<close>, by its shortest
  decimal.\<close>

definition Math_PI :: real where
  "Math_PI = 3141592653589793 / 1000000000000000"

subsection \<open>\<^verbatim>\<open>new Date(ms).toISOString()\<close>\<close>

definition digit :: "int \<Rightarrow> char" where
  "digit d = ''0123456789'' ! nat d"

fun pad :: "nat \<Rightarrow> int \<Rightarrow> string" where
  "pad 0 n = []"
| "pad (Suc k) n = pad k (n div 10) @ [digit (n mod 10)]"

definition civil_from_days :: "int \<Rightarrow> int \<times> int \<times> int" where
  "civil_from_days days =
    (let z = days + 719468;
         era = z div 146097;
         doe = z mod 146097;
         yoe = (doe - doe div 1460 + doe div 36524 - doe div 146096) div 365;
         doy = doe - (365 * yoe + yoe div 4 - yoe div 100);
         mp = (5 * doy + 2) div 153;
         d = doy - (153 * mp + 2) div 5 + 1;
         m = (if mp < 10 then mp + 3 else mp - 9);
         y = yoe + era * 400 + (if m \<le> 2 then 1 else 0)
     in (y, m, d))"

text \<open>A time value outside \<open>\<plusminus>8.64e15\<close> ms is an invalid date, on which
  \<^verbatim>\<open>toISOString\<close> throws a \<^verbatim>\<open>RangeError\<close>.\<close>

definition toISOString :: "int \<Rightarrow> error + string" where
  "toISOString ms =
    (if ms < - 8640000000000000 \<or> 8640000000000000 < ms then Inl RangeError
     else
       let (y, m, d) = civil_from_days (ms div 86400000);
           t = ms mod 86400000;
           year = (if 0 \<le> y \<and> y \<le> 9999 then pad 4 y
                   else (if y < 0 then ''-'' else ''+'') @ pad 6 (abs y))
       in Inr (year @ ''-'' @ pad 2 m @ ''-'' @ pad 2 d @ ''T'' @
               pad 2 (t div 3600000) @ '':'' @ pad 2 (t mod 3600000 div 60000) @ '':'' @
               pad 2 (t mod 60000 div 1000) @ ''.'' @ pad 3 (t mod 1000) @ ''Z''))"

section \<open>The provider's response (openweather.ts, interfaces)\<close>

text \<open>
  The interfaces \<^verbatim>\<open>OWObservation\<close>, \<^verbatim>\<open>OWForecast\<close> and
  \<^verbatim>\<open>OWWarning\<close>.  A field the parser tests with
  \<^verbatim>\<open>typeof x !== 'undefined'\<close>, with \<^verbatim>\<open>??\<close> or for truthiness is an
  option (\<open>None\<close> is \<^verbatim>\<open>undefined\<close>); \<^verbatim>\<open>weather\<close> is the array the
  interface declares, possibly empty.  \<^verbatim>\<open>rain\<close> and \<^verbatim>\<open>snow\<close> are
  string-keyed objects.  A forecast's \<^verbatim>\<open>temp\<close> and \<^verbatim>\<open>feels_like\<close>
  are objects in a daily entry and plain numbers in an hourly one, which is why the source casts
  them with \<^verbatim>\<open>as any\<close>.
\<close>

record OWWeather =
  wi_id :: int
  wi_main :: string
  wi_description :: "string option"
  wi_icon :: string

type_synonym OWPrecipitation = "string \<rightharpoonup> real"

record OWObservation =
  o_dt :: "int option"
  o_sunrise :: "int option"
  o_sunset :: "int option"
  o_temp :: "real option"
  o_feels_like :: "real option"
  o_pressure :: "real option"
  o_humidity :: "real option"
  o_dew_point :: "real option"
  o_uvi :: "real option"
  o_clouds :: "real option"
  o_visibility :: "real option"
  o_wind_speed :: "real option"
  o_wind_deg :: "real option"
  o_weather :: "OWWeather list"
  o_rain :: "OWPrecipitation option"
  o_snow :: "OWPrecipitation option"

record OWTemp =
  t_day :: "real option"
  t_min :: "real option"
  t_max :: "real option"
  t_night :: "real option"
  t_eve :: "real option"
  t_morn :: "real option"

record OWFeelsLike =
  fl_day :: "real option"
  fl_night :: "real option"
  fl_eve :: "real option"
  fl_morn :: "real option"

datatype 'a num_or = Number real | Object 'a

record OWForecast =
  f_dt :: "int option"
  f_sunrise :: "int option"
  f_sunset :: "int option"
  f_temp :: "OWTemp num_or option"
  f_feels_like :: "OWFeelsLike num_or option"
  f_pressure :: "real option"
  f_humidity :: "real option"
  f_dew_point :: "real option"
  f_wind_speed :: "real option"
  f_wind_deg :: "real option"
  f_wind_gust :: "real option"
  f_weather :: "OWWeather list"
  f_clouds :: "real option"
  f_uvi :: "real option"
  f_rain :: "OWPrecipitation option"
  f_snow :: "OWPrecipitation option"

record OWWarning =
  w_sender_name :: "string option"
  w_event :: "string option"
  w_start :: "int option"
  w_end :: "int option"
  w_description :: "string option"
  w_tags :: "string list"

text \<open>\<^verbatim>\<open>OWResponse\<close> is an open object; these are the keys the code reads.
  \<^verbatim>\<open>cod\<close> and \<^verbatim>\<open>message\<close> are the provider's application-level
  error report.\<close>

record OWResponse =
  cod :: "int option"
  message :: "string option"
  current :: "OWObservation option"
  hourly :: "OWForecast list option"
  daily :: "OWForecast list option"
  alerts :: "OWWarning list option"

section \<open>The Signal K records the parser produces\<close>

datatype WeatherDataType = daily_forecast | point | observation

record Outside =
  uvIndex :: "real option"
  cloudCover :: "real option"
  horizontalVisibility :: "real option"
  temperature :: "OWTemp num_or option"
  feelsLikeTemperature :: "OWFeelsLike num_or option"
  dewPointTemperature :: "real option"
  pressure :: "real option"
  absoluteHumidity :: "real option"
  relativeHumidity :: "real option"
  precipitationType :: "string option"
  precipitationVolume :: "real option"
  minTemperature :: "real option"
  maxTemperature :: "real option"

record Sun =
  sunrise :: "string option"
  sunset :: "string option"

record Wind =
  speedTrue :: "real option"
  directionTrue :: "real option"
  gust :: "real option"

record WeatherData =
  date :: string
  description :: string
  type' :: WeatherDataType
  sun :: "Sun option"
  outside :: "Outside option"
  water :: "unit option"
  wind :: "Wind option"

record WeatherWarning =
  startTime :: string
  endTime :: string
  details :: "string option"
  source :: "string option"
  warningType :: "string option"

record WeatherReqParams =
  maxCount :: "int option"
  startDate :: "string option"

section \<open>Translation of a response (openweather.ts, the three parsers)\<close>

definition no_outside :: Outside where
  "no_outside = \<lparr>uvIndex = None, cloudCover = None, horizontalVisibility = None,
     temperature = None, feelsLikeTemperature = None, dewPointTemperature = None,
     pressure = None, absoluteHumidity = None, relativeHumidity = None,
     precipitationType = None, precipitationVolume = None,
     minTemperature = None, maxTemperature = None\<rparr>"

text \<open>\<^verbatim>\<open>Object.keys(x).length === 0\<close>: the parser only ever assigns defined
  values, so a key exists exactly when its field is \<open>Some\<close>.\<close>

definition no_keys_outside :: "Outside \<Rightarrow> bool" where
  "no_keys_outside x = (x = no_outside)"

definition no_keys_sun :: "Sun \<Rightarrow> bool" where
  "no_keys_sun x = (sunrise x = None \<and> sunset x = None)"

definition no_keys_wind :: "Wind \<Rightarrow> bool" where
  "no_keys_wind x = (speedTrue x = None \<and> directionTrue x = None \<and> gust x = None)"

text \<open>\<^verbatim>\<open>x.dt ? new Date(x.dt * 1000).toISOString() : new Date().toISOString()\<close>;
  zero and \<^verbatim>\<open>undefined\<close> are the falsy timestamps.\<close>

definition dateOf :: "int \<Rightarrow> int option \<Rightarrow> error + string" where
  "dateOf now dt =
     (case dt of
        None \<Rightarrow> toISOString now
      | Some t \<Rightarrow> if t \<noteq> 0 then toISOString (t * 1000) else toISOString now)"

text \<open>\<^verbatim>\<open>x.weather[0].description ?? ''\<close>: reading \<^verbatim>\<open>description\<close> of the
  missing first element is a \<^verbatim>\<open>TypeError\<close>.\<close>

definition firstDescription :: "OWWeather list \<Rightarrow> error + string" where
  "firstDescription ws =
     (case ws of
        [] \<Rightarrow> Inl TypeError
      | w # _ \<Rightarrow> Inr (case wi_description w of None \<Rightarrow> [] | Some d \<Rightarrow> d))"

text \<open>\<^verbatim>\<open>new Date(t * 1000).toISOString()\<close> under
  \<^verbatim>\<open>typeof t !== 'undefined'\<close>.\<close>

definition isoOpt :: "int option \<Rightarrow> error + string option" where
  "isoOpt t =
     (case t of
        None \<Rightarrow> Inr None
      | Some v \<Rightarrow> (case toISOString (v * 1000) of Inl e \<Rightarrow> Inl e | Inr s \<Rightarrow> Inr (Some s)))"

text \<open>Rain wins over snow when both report a \<^verbatim>\<open>'1h'\<close> volume.\<close>

definition precipitation :: "OWPrecipitation option \<Rightarrow> OWPrecipitation option \<Rightarrow> Outside \<Rightarrow> Outside" where
  "precipitation rain snow out =
     (case (case rain of None \<Rightarrow> None | Some r \<Rightarrow> r ''1h'') of
        Some v \<Rightarrow> out\<lparr>precipitationType := Some ''rain'', precipitationVolume := Some v\<rparr>
      | None \<Rightarrow>
          (case (case snow of None \<Rightarrow> None | Some s \<Rightarrow> s ''1h'') of
             Some v \<Rightarrow> out\<lparr>precipitationType := Some ''snow'', precipitationVolume := Some v\<rparr>
           | None \<Rightarrow> out))"

definition parseCurrent :: "int \<Rightarrow> OWObservation \<Rightarrow> error + WeatherData" where
  "parseCurrent now cur =
     bindE (dateOf now (o_dt cur)) (\<lambda>d.
     bindE (firstDescription (o_weather cur)) (\<lambda>descr.
     bindE (isoOpt (o_sunrise cur)) (\<lambda>rise.
     bindE (isoOpt (o_sunset cur)) (\<lambda>set.
       let out = precipitation (o_rain cur) (o_snow cur)
                   (no_outside\<lparr>
                      uvIndex := o_uvi cur,
                      cloudCover := map_option (\<lambda>c. c / 100) (o_clouds cur),
                      horizontalVisibility := o_visibility cur,
                      temperature := map_option Number (o_temp cur),
                      feelsLikeTemperature := map_option Number (o_feels_like cur),
                      dewPointTemperature := o_dew_point cur,
                      pressure := map_option (\<lambda>p. p * 100) (o_pressure cur),
                      absoluteHumidity := map_option (\<lambda>h. h / 100) (o_humidity cur)\<rparr>);
           sn = \<lparr>sunrise = rise, sunset = set\<rparr>;
           wnd = \<lparr>speedTrue = o_wind_speed cur,
                  directionTrue = map_option (\<lambda>g. (Math_PI / 180) * g) (o_wind_deg cur),
                  gust = None\<rparr>
       in Inr \<lparr>date = d, description = descr, type' = observation,
                sun = (if no_keys_sun sn then None else Some sn),
                outside = (if no_keys_outside out then None else Some out),
                water = None,
                wind = (if no_keys_wind wnd then None else Some wnd)\<rparr>))))"

text \<open>\<^verbatim>\<open>parseOWObservations\<close>: at most the one record built from
  \<^verbatim>\<open>owData.current\<close>.  The payload is an option because a cache read may hand the
  parser \<^verbatim>\<open>undefined\<close>.\<close>

definition parseOWObservations :: "int \<Rightarrow> OWResponse option \<Rightarrow> error + WeatherData list" where
  "parseOWObservations now owData =
     (case owData of
        None \<Rightarrow> Inr []
      | Some d \<Rightarrow>
          (case current d of
             None \<Rightarrow> Inr []
           | Some cur \<Rightarrow> (case parseCurrent now cur of Inl e \<Rightarrow> Inl e | Inr obs \<Rightarrow> Inr [obs])))"

text \<open>Property reads on a forecast's \<^verbatim>\<open>temp\<close> / \<^verbatim>\<open>feels_like\<close>: on
  \<^verbatim>\<open>undefined\<close> a \<^verbatim>\<open>TypeError\<close>, on a number \<^verbatim>\<open>undefined\<close>.\<close>

definition member_of :: "'a num_or option \<Rightarrow> ('a \<Rightarrow> real option) \<Rightarrow> error + real option" where
  "member_of v field =
     (case v of
        None \<Rightarrow> Inl TypeError
      | Some (Number _) \<Rightarrow> Inr None
      | Some (Object x) \<Rightarrow> Inr (field x))"

definition parseForecast :: "int \<Rightarrow> WeatherDataType \<Rightarrow> OWForecast \<Rightarrow> error + WeatherData" where
  "parseForecast now period f =
     bindE (dateOf now (f_dt f)) (\<lambda>d.
     bindE (firstDescription (f_weather f)) (\<lambda>descr.
     bindE (if period = daily_forecast then isoOpt (f_sunrise f) else Inr None) (\<lambda>rise.
     bindE (if period = daily_forecast then isoOpt (f_sunset f) else Inr None) (\<lambda>set.
     bindE (if period = daily_forecast then member_of (f_temp f) t_min else Inr None) (\<lambda>tmin.
     bindE (if period = daily_forecast then member_of (f_temp f) t_max else Inr None) (\<lambda>tmax.
     bindE (if period = daily_forecast then member_of (f_feels_like f) fl_day else Inr None) (\<lambda>feels.
       let out0 = (if period = daily_forecast
                   then no_outside\<lparr>minTemperature := tmin, maxTemperature := tmax,
                                    feelsLikeTemperature := map_option Number feels\<rparr>
                   else no_outside\<lparr>feelsLikeTemperature := f_feels_like f,
                                    temperature := f_temp f\<rparr>);
           out1 = out0\<lparr>dewPointTemperature := f_dew_point f,
                       uvIndex := f_uvi f,
                       cloudCover := map_option (\<lambda>c. c / 100) (f_clouds f),
                       pressure := map_option (\<lambda>p. p * 100) (f_pressure f),
                       absoluteHumidity := map_option (\<lambda>h. h / 100) (f_humidity f)\<rparr>;
           wnd = \<lparr>speedTrue = f_wind_speed f,
                  directionTrue = map_option (\<lambda>g. (Math_PI / 180) * g) (f_wind_deg f),
                  gust = f_wind_gust f\<rparr>;
           out = precipitation (f_rain f) (f_snow f) out1;
           sn = \<lparr>sunrise = rise, sunset = set\<rparr>;
           wind' = (if no_keys_wind wnd then None else Some wnd)
       in Inr \<lparr>date = d, description = descr, type' = period,
                sun = (if period = daily_forecast \<and> \<not> no_keys_sun sn then Some sn else None),
                outside = (if wind' \<noteq> None \<and> no_keys_outside out then None else Some out),
                water = None,
                wind = wind'\<rparr>)))))))"

definition parseOWForecasts :: "int \<Rightarrow> OWResponse option \<Rightarrow> WeatherDataType \<Rightarrow> error + WeatherData list" where
  "parseOWForecasts now owData period =
     (case owData of
        None \<Rightarrow> Inr []
      | Some d \<Rightarrow>
          (case (if period = point then hourly d else daily d) of
             None \<Rightarrow> Inr []
           | Some forecasts \<Rightarrow> traverse (parseForecast now period) forecasts))"

text \<open>\<^verbatim>\<open>parseOWWarnings\<close>.  \<^verbatim>\<open>endTime\<close> is guarded by
  \<^verbatim>\<open>alert.end\<close> and computed from \<^verbatim>\<open>alert.start\<close>; with
  \<^verbatim>\<open>start\<close> undefined the product is \<^verbatim>\<open>NaN\<close>, an invalid date.\<close>

definition truthy :: "int option \<Rightarrow> bool" where
  "truthy n = (case n of None \<Rightarrow> False | Some v \<Rightarrow> v \<noteq> 0)"

definition dateTimes1000 :: "int option \<Rightarrow> error + string" where
  "dateTimes1000 n = (case n of None \<Rightarrow> Inl RangeError | Some v \<Rightarrow> toISOString (v * 1000))"

definition parseWarning :: "OWWarning \<Rightarrow> error + WeatherWarning" where
  "parseWarning alert =
     bindE (if truthy (w_start alert) then dateTimes1000 (w_start alert) else Inr []) (\<lambda>st.
     bindE (if truthy (w_end alert) then dateTimes1000 (w_start alert) else Inr []) (\<lambda>en.
       Inr \<lparr>startTime = st, endTime = en,
            details = w_description alert,
            source = w_sender_name alert,
            warningType = w_event alert\<rparr>))"

definition parseOWWarnings :: "OWResponse option \<Rightarrow> error + WeatherWarning list" where
  "parseOWWarnings owData =
     (case owData of
        None \<Rightarrow> Inr []
      | Some d \<Rightarrow>
          (case alerts d of
             None \<Rightarrow> Inr []
           | Some as \<Rightarrow> traverse parseWarning as))"

section \<open>The geospatial cache (lib/cache.ts)\<close>

text \<open>
  openweather.ts imports the class \<^verbatim>\<open>WCache\<close> from \<^verbatim>\<open>../lib/cache\<close>,
  a file that is not among the sources.  The gateway uses four of its methods and one
  property; they are taken from the specification's cache contract (section 4.1).  The
  derivation of a cell key from a position is a field of the object, so that every theorem
  below holds for whatever grid the real class implements.
\<close>

text \<open>Modelled from the spec: the entries \<^verbatim>\<open>WCache\<close> stores (lib/cache.ts is
  missing), the spec's \<^verbatim>\<open>CacheEntry\<close>: a payload and the time it was fetched; the
  key is the index under which the cache keeps the entry.\<close>

record CacheEntry =
  payload :: OWResponse
  fetchedAt :: int

text \<open>A JavaScript number as the configuration delivers it: an integer count of minutes,
  or \<^verbatim>\<open>NaN\<close>.\<close>

datatype number = Num int | NaN

text \<open>Modelled from the spec: the state of a \<^verbatim>\<open>WCache\<close> object (lib/cache.ts is
  missing): the key derivation \<^verbatim>\<open>calcId\<close>, the stored entries by key, and the
  property \<^verbatim>\<open>maxAge\<close> that the constructor of \<^verbatim>\<open>OpenWeather\<close>
  assigns.\<close>

record WCache =
  calcId :: "Position \<Rightarrow> string"
  entries :: "string \<rightharpoonup> CacheEntry"
  maxAge :: "number option"

text \<open>Modelled from the spec: the age up to which \<^verbatim>\<open>WCache\<close> takes an entry as
  fresh (lib/cache.ts is missing).  The spec's \<^verbatim>\<open>maxAge\<close> is a duration set from
  the polling interval (section 3; its end-to-end scenario has a \<^verbatim>\<open>maxAge\<close> of 30
  minutes), and the plugin's documentation says that the polling interval is also the maximum
  age of cache data.  The property holds the configured count of minutes; ages are in
  milliseconds.  \<^verbatim>\<open>NaN\<close> and \<^verbatim>\<open>undefined\<close> give no threshold.\<close>

definition maxAgeMillis :: "WCache \<Rightarrow> int option" where
  "maxAgeMillis c =
     (case maxAge c of
        None \<Rightarrow> None
      | Some NaN \<Rightarrow> None
      | Some (Num m) \<Rightarrow> Some (m * 60000))"

text \<open>Modelled from the spec: \<^verbatim>\<open>WCache.contains\<close> (lib/cache.ts is missing),
  the spec's \<^verbatim>\<open>lookup\<close>: the key of the stored entry only if an entry exists for
  the position's key and \<^verbatim>\<open>now - entry.fetchedAt < maxAge\<close>; without a threshold
  the comparison is false.\<close>

definition contains :: "WCache \<Rightarrow> int \<Rightarrow> Position \<Rightarrow> string option" where
  "contains c now position =
     (let key = calcId c position in
      case entries c key of
        None \<Rightarrow> None
      | Some e \<Rightarrow>
          (case maxAgeMillis c of
             None \<Rightarrow> None
           | Some age \<Rightarrow> if now - fetchedAt e < age then Some key else None))"

text \<open>Modelled from the spec: \<^verbatim>\<open>WCache.getEntry\<close> (lib/cache.ts is missing),
  the spec's \<^verbatim>\<open>get\<close>: the stored payload for a reference.\<close>

definition getEntry :: "WCache \<Rightarrow> string \<Rightarrow> OWResponse option" where
  "getEntry c entryId = map_option payload (entries c entryId)"

text \<open>Modelled from the spec: \<^verbatim>\<open>WCache.setEntry\<close> (lib/cache.ts is missing),
  the spec's \<^verbatim>\<open>put\<close>: overwrites any entry of the key with one stamped at the
  current time.\<close>

definition setEntry :: "WCache \<Rightarrow> int \<Rightarrow> string \<Rightarrow> OWResponse \<Rightarrow> WCache" where
  "setEntry c now entryId data =
     c\<lparr>entries := (entries c)(entryId \<mapsto> \<lparr>payload = data, fetchedAt = now\<rparr>)\<rparr>"

section \<open>The world outside the plugin\<close>

text \<open>
  The clock, the remote service, the host's timers, the vessel's position and what the host
  has been told.  \<^verbatim>\<open>fetch(url)\<close> followed by \<^verbatim>\<open>res.json()\<close> ends in one of
  two ways: a rejection (transport failure, or a body that is not a JSON object), or a JSON
  object.  The remote service answers the calls in the order of \<open>responses\<close>, and every
  call is logged in \<open>requests\<close>.  \<^verbatim>\<open>server.debug\<close> and
  \<^verbatim>\<open>console.log\<close> are not recorded.
\<close>

datatype Url = EmptyUrl | OneCall real real string

datatype FetchOutcome = Rejected | Json OWResponse

datatype RetryKind = NoPositionRetry | FetchRetry | StartTimer

record Timeout =
  handle :: nat
  due :: int
  kind :: RetryKind

datatype DeltaValue =
    PositionValue Position
  | NameValue string
  | StringValue string
  | NumberValue real
  | TempValue "OWTemp num_or"
  | FeelsValue "OWFeelsLike num_or"

record World =
  now :: int
  responses :: "FetchOutcome list"
  requests :: "Url list"
  navigation_position :: "Position option"
  intervals :: "nat list"
  timeouts :: "Timeout list"
  next_handle :: nat
  pluginErrors :: "string list"
  messages :: "(string \<times> (string \<times> DeltaValue) list) list"

definition fetch :: "World \<Rightarrow> Url \<Rightarrow> FetchOutcome \<times> World" where
  "fetch w url =
     (case responses w of
        [] \<Rightarrow> (Rejected, w\<lparr>requests := requests w @ [url]\<rparr>)
      | r # rs \<Rightarrow> (r, w\<lparr>requests := requests w @ [url], responses := rs\<rparr>))"

section \<open>The fetch gateway (openweather.ts, class OpenWeather)\<close>

record WEATHER_CONFIG =
  apiKey :: string
  enable :: bool
  pollInterval :: "number option"

record OpenWeather =
  settings :: WEATHER_CONFIG
  wcache :: WCache

text \<open>The constructor; \<open>fresh\<close> is the object \<^verbatim>\<open>new WCache(path)\<close> returned.\<close>

definition new_OpenWeather :: "WEATHER_CONFIG \<Rightarrow> WCache \<Rightarrow> OpenWeather" where
  "new_OpenWeather config fresh =
     \<lparr>settings = config, wcache = fresh\<lparr>maxAge := pollInterval config\<rparr>\<rparr>"

text \<open>The request URL, kept structured instead of printed into the template string.\<close>

definition getUrl :: "OpenWeather \<Rightarrow> Position \<Rightarrow> Url" where
  "getUrl ow position =
     (if apiKey (settings ow) = [] then EmptyUrl
      else OneCall (latitude position) (longitude position) (apiKey (settings ow)))"

definition fetchData :: "OpenWeather \<Rightarrow> World \<Rightarrow> Position \<Rightarrow> (error + OWResponse) \<times> OpenWeather \<times> World" where
  "fetchData ow w position =
     (let url = getUrl ow position;
          (res, w') = fetch w url
      in case res of
           Rejected \<Rightarrow> (Inl (Error ''Error fetching weather data from provider!''), ow, w')
         | Json owData \<Rightarrow>
             if cod owData \<noteq> None
             then (Inl (Error ''Error fetching weather data from provider!''), ow, w')
             else
               let entryId = calcId (wcache ow) position
               in (Inr owData, ow\<lparr>wcache := setEntry (wcache ow) (now w') entryId owData\<rparr>, w'))"

text \<open>The block that opens each of the three fetch functions: the payload comes from the
  remote service when \<^verbatim>\<open>bypassCache\<close> is truthy or the cache reports no fresh
  entry, and from the cache otherwise.\<close>

definition resolve :: "OpenWeather \<Rightarrow> World \<Rightarrow> Position \<Rightarrow> bool option \<Rightarrow>
    (error + OWResponse option) \<times> OpenWeather \<times> World" where
  "resolve ow w position bypassCache =
     (let entryId = contains (wcache ow) (now w) position in
      if bypassCache = Some True \<or> entryId = None
      then (case fetchData ow w position of
              (Inl e, ow', w') \<Rightarrow> (Inl e, ow', w')
            | (Inr owData, ow', w') \<Rightarrow> (Inr (Some owData), ow', w'))
      else (case entryId of
              None \<Rightarrow> (Inr None, ow, w)
            | Some i \<Rightarrow> (Inr (getEntry (wcache ow) i), ow, w)))"

text \<open>\<^verbatim>\<open>xs.slice(0, end)\<close> for an integer \<^verbatim>\<open>end\<close>, and the source's
  \<^verbatim>\<open>options?.maxCount ? xs.slice(0, options.maxCount) : xs\<close>.\<close>

definition slice0 :: "'a list \<Rightarrow> int \<Rightarrow> 'a list" where
  "slice0 xs e = (if e < 0 then take (nat (int (length xs) + e)) xs else take (nat e) xs)"

definition upToMaxCount :: "WeatherReqParams option \<Rightarrow> 'a list \<Rightarrow> 'a list" where
  "upToMaxCount options xs =
     (case options of
        None \<Rightarrow> xs
      | Some opt \<Rightarrow> if truthy (maxCount opt) then slice0 xs (case maxCount opt of None \<Rightarrow> 0 | Some n \<Rightarrow> n) else xs)"

text \<open>What each fetch function does with the payload once it has one: translate it, cut the
  list where the function takes options, and turn anything thrown into the function's own
  error.\<close>

definition observationsOf :: "int \<Rightarrow> WeatherReqParams option \<Rightarrow> OWResponse option \<Rightarrow>
    error + WeatherData list" where
  "observationsOf t options owData =
     (case parseOWObservations t owData of
        Inl e \<Rightarrow> Inl (Error ''Error fetching / parsing weather data!'')
      | Inr obs \<Rightarrow> Inr (upToMaxCount options obs))"

definition forecastsOf :: "int \<Rightarrow> WeatherDataType \<Rightarrow> WeatherReqParams option \<Rightarrow>
    OWResponse option \<Rightarrow> error + WeatherData list" where
  "forecastsOf t type options owData =
     (case parseOWForecasts t owData type of
        Inl e \<Rightarrow> Inl (Error ''Error fetching / parsing weather data from provider!'')
      | Inr f \<Rightarrow> Inr (upToMaxCount options f))"

definition warningsOf :: "OWResponse option \<Rightarrow> error + WeatherWarning list" where
  "warningsOf owData =
     (case parseOWWarnings owData of
        Inl e \<Rightarrow> Inl (Error ''Error fetching / parsing weather data!'')
      | Inr ws \<Rightarrow> Inr ws)"

definition fetchObservations :: "OpenWeather \<Rightarrow> World \<Rightarrow> Position \<Rightarrow> WeatherReqParams option \<Rightarrow>
    bool option \<Rightarrow> (error + WeatherData list) \<times> OpenWeather \<times> World" where
  "fetchObservations ow w position options bypassCache =
     (case resolve ow w position bypassCache of
        (Inl e, ow', w') \<Rightarrow> (Inl (Error ''Error fetching / parsing weather data!''), ow', w')
      | (Inr owData, ow', w') \<Rightarrow> (observationsOf (now w') options owData, ow', w'))"

definition fetchForecasts :: "OpenWeather \<Rightarrow> World \<Rightarrow> Position \<Rightarrow> WeatherDataType \<Rightarrow>
    WeatherReqParams option \<Rightarrow> bool option \<Rightarrow> (error + WeatherData list) \<times> OpenWeather \<times> World" where
  "fetchForecasts ow w position type options bypassCache =
     (case resolve ow w position bypassCache of
        (Inl e, ow', w') \<Rightarrow>
          (Inl (Error ''Error fetching / parsing weather data from provider!''), ow', w')
      | (Inr owData, ow', w') \<Rightarrow> (forecastsOf (now w') type options owData, ow', w'))"

definition fetchWarnings :: "OpenWeather \<Rightarrow> World \<Rightarrow> Position \<Rightarrow> bool option \<Rightarrow>
    (error + WeatherWarning list) \<times> OpenWeather \<times> World" where
  "fetchWarnings ow w position bypassCache =
     (case resolve ow w position bypassCache of
        (Inl e, ow', w') \<Rightarrow> (Inl (Error ''Error fetching / parsing weather data!''), ow', w')
      | (Inr owData, ow', w') \<Rightarrow> (warningsOf owData, ow', w'))"

section \<open>The polling scheduler (weather-service.ts)\<close>

text \<open>
  The module-level variables of weather-service.ts are the fields of one record; the two
  counters are \<^verbatim>\<open>retry.count\<close> and \<^verbatim>\<open>noPosRetry.count\<close>.  A timer
  variable holds the handle the host returned.  \<^verbatim>\<open>pollWeatherData\<close> is an
  \<^verbatim>\<open>async\<close> function with one \<^verbatim>\<open>await\<close>; the model runs it to its end
  in one step, so no other callback runs while the fetch is pending.
\<close>

definition wakeInterval :: int where "wakeInterval = 60000"
definition retry_interval :: int where "retry_interval = 10000"
definition retry_maxCount :: nat where "retry_maxCount = 3"
definition noPosRetry_maxCount :: nat where "noPosRetry_maxCount = 12"
definition noPosRetry_interval :: int where "noPosRetry_interval = 10000"

record Scheduler =
  lastWake :: "int option"
  lastFetch :: "int option"
  fetchInterval :: int
  timer :: "nat option"
  retryTimer :: "nat option"
  retry_count :: nat
  noPosRetry_count :: nat
  weatherService :: "OpenWeather option"

text \<open>The module as loaded, before \<^verbatim>\<open>initWeather\<close>.\<close>

definition module_loaded :: Scheduler where
  "module_loaded = \<lparr>lastWake = None, lastFetch = None, fetchInterval = 3600000,
     timer = None, retryTimer = None, retry_count = 0, noPosRetry_count = 0,
     weatherService = None\<rparr>"

subsection \<open>The host's timers\<close>

definition setTimeout :: "World \<Rightarrow> RetryKind \<Rightarrow> int \<Rightarrow> nat \<times> World" where
  "setTimeout w k delay =
     (next_handle w,
      w\<lparr>timeouts := timeouts w @ [\<lparr>handle = next_handle w, due = now w + delay, kind = k\<rparr>],
        next_handle := next_handle w + 1\<rparr>)"

definition setInterval :: "World \<Rightarrow> nat \<times> World" where
  "setInterval w =
     (next_handle w,
      w\<lparr>intervals := intervals w @ [next_handle w], next_handle := next_handle w + 1\<rparr>)"

definition clearTimeout :: "World \<Rightarrow> nat \<Rightarrow> World" where
  "clearTimeout w h = w\<lparr>timeouts := filter (\<lambda>t. handle t \<noteq> h) (timeouts w)\<rparr>"

definition clearInterval :: "World \<Rightarrow> nat \<Rightarrow> World" where
  "clearInterval w h = w\<lparr>intervals := removeAll h (intervals w)\<rparr>"

definition setPluginError :: "World \<Rightarrow> string \<Rightarrow> World" where
  "setPluginError w msg = w\<lparr>pluginErrors := pluginErrors w @ [msg]\<rparr>"

subsection \<open>\<^verbatim>\<open>emitMeteoDeltas\<close>\<close>

definition delta :: "string \<Rightarrow> ('a \<Rightarrow> DeltaValue) \<Rightarrow> 'a option \<Rightarrow> (string \<times> DeltaValue) list" where
  "delta path mk v = (case v of None \<Rightarrow> [] | Some x \<Rightarrow> [(path, mk x)])"

definition of_outside :: "WeatherData \<Rightarrow> (Outside \<Rightarrow> 'a option) \<Rightarrow> 'a option" where
  "of_outside obs field = (case outside obs of None \<Rightarrow> None | Some x \<Rightarrow> field x)"

definition of_sun :: "WeatherData \<Rightarrow> (Sun \<Rightarrow> 'a option) \<Rightarrow> 'a option" where
  "of_sun obs field = (case sun obs of None \<Rightarrow> None | Some x \<Rightarrow> field x)"

definition of_wind :: "WeatherData \<Rightarrow> (Wind \<Rightarrow> 'a option) \<Rightarrow> 'a option" where
  "of_wind obs field = (case wind obs of None \<Rightarrow> None | Some x \<Rightarrow> field x)"

text \<open>The caller passes \<^verbatim>\<open>obs[0]\<close>, which is \<^verbatim>\<open>undefined\<close> for an empty
  list; reading \<^verbatim>\<open>obs.date\<close> then throws.  The message goes to
  \<^verbatim>\<open>server.handleMessage\<close> under the context \<^verbatim>\<open>meteo.openweather\<close>.\<close>

definition deltaValues :: "Position \<Rightarrow> WeatherData \<Rightarrow> (string \<times> DeltaValue) list" where
  "deltaValues position obs =
     [(''navigation.position'', PositionValue position),
      ([], NameValue ''OpenWeather''),
      (''environment.date'', StringValue (date obs))]
     @ delta ''environment.outside.horizontalVisibility'' NumberValue (of_outside obs horizontalVisibility)
     @ delta ''environment.sun.sunrise'' StringValue (of_sun obs sunrise)
     @ delta ''environment.sun.sunset'' StringValue (of_sun obs sunset)
     @ delta ''environment.outside.uvIndex'' NumberValue (of_outside obs uvIndex)
     @ delta ''environment.outside.cloudCover'' NumberValue (of_outside obs cloudCover)
     @ delta ''environment.outside.temperature'' TempValue (of_outside obs temperature)
     @ delta ''environment.outside.dewPointTemperature'' NumberValue (of_outside obs dewPointTemperature)
     @ delta ''environment.outside.feelsLikeTemperature'' FeelsValue (of_outside obs feelsLikeTemperature)
     @ delta ''environment.outside.pressure'' NumberValue (of_outside obs pressure)
     @ delta ''environment.outside.relativeHumidity'' NumberValue (of_outside obs relativeHumidity)
     @ delta ''environment.outside.absoluteHumidity'' NumberValue (of_outside obs absoluteHumidity)
     @ delta ''environment.outside.precipitationType'' StringValue (of_outside obs precipitationType)
     @ delta ''environment.wind.speedTrue'' NumberValue (of_wind obs speedTrue)
     @ delta ''environment.wind.directionTrue'' NumberValue (of_wind obs directionTrue)"

definition emitMeteoDeltas :: "World \<Rightarrow> Position \<Rightarrow> WeatherData option \<Rightarrow> error + World" where
  "emitMeteoDeltas w position obs0 =
     (case obs0 of
        None \<Rightarrow> Inl TypeError
      | Some obs \<Rightarrow>
          Inr (w\<lparr>messages := messages w @ [(''meteo.openweather'', deltaValues position obs)]\<rparr>))"

subsection \<open>\<^verbatim>\<open>pollWeatherData\<close> and the timer callbacks\<close>

text \<open>\<^verbatim>\<open>if (lastFetch) { const e = Date.now() - lastFetch; if (e < fetchInterval) ...\<close>\<close>

definition notDue :: "Scheduler \<Rightarrow> World \<Rightarrow> bool" where
  "notDue s w =
     (case lastFetch s of
        None \<Rightarrow> False
      | Some t \<Rightarrow> t \<noteq> 0 \<and> now w - t < fetchInterval s)"

text \<open>The \<^verbatim>\<open>try\<close> block: the bypassing fetch, the bookkeeping, the delta and the
  \<^verbatim>\<open>setInterval\<close>; anything thrown in it reaches the \<^verbatim>\<open>catch\<close>, which
  schedules one retry.  State changed before the throw stays changed.\<close>

definition tryFetch :: "Scheduler \<Rightarrow> World \<Rightarrow> Position \<Rightarrow> Scheduler \<times> World" where
  "tryFetch s w pos =
     (case weatherService s of
        None \<Rightarrow>
          (let (h, w') = setTimeout w FetchRetry retry_interval in (s\<lparr>retryTimer := Some h\<rparr>, w'))
      | Some ow \<Rightarrow>
          (case fetchObservations ow w pos None (Some True) of
             (Inl e, ow', w1) \<Rightarrow>
               (let (h, w') = setTimeout w1 FetchRetry retry_interval
                in (s\<lparr>weatherService := Some ow', retryTimer := Some h\<rparr>, w'))
           | (Inr obs, ow', w1) \<Rightarrow>
               (let s1 = s\<lparr>weatherService := Some ow', retry_count := 0,
                           lastFetch := Some (now w1), lastWake := Some (now w1)\<rparr>
                in case emitMeteoDeltas w1 pos (case obs of [] \<Rightarrow> None | x # _ \<Rightarrow> Some x) of
                     Inl e \<Rightarrow>
                       (let (h, w') = setTimeout w1 FetchRetry retry_interval
                        in (s1\<lparr>retryTimer := Some h\<rparr>, w'))
                   | Inr w2 \<Rightarrow>
                       (let (h, w') = setInterval w2 in (s1\<lparr>timer := Some h\<rparr>, w')))))"

text \<open>\<^verbatim>\<open>if (retryTimer) { clearTimeout(retryTimer) }\<close>\<close>

definition cancelRetry :: "Scheduler \<Rightarrow> World \<Rightarrow> World" where
  "cancelRetry s w = (case retryTimer s of None \<Rightarrow> w | Some h \<Rightarrow> clearTimeout w h)"

definition pollWeatherData :: "Scheduler \<Rightarrow> World \<Rightarrow> Scheduler \<times> World" where
  "pollWeatherData s w =
     (case navigation_position w of
        None \<Rightarrow>
          if noPosRetry_count s \<ge> noPosRetry_maxCount then (s, w)
          else
            (let (h, w') = setTimeout w NoPositionRetry noPosRetry_interval
             in (s\<lparr>noPosRetry_count := noPosRetry_count s + 1, retryTimer := Some h\<rparr>, w'))
      | Some pos \<Rightarrow>
          (let s1 = s\<lparr>noPosRetry_count := 0\<rparr>;
               w1 = cancelRetry s1 w
           in if notDue s1 w1 then (s1, w1)
              else if retry_count s1 < retry_maxCount
              then tryFetch (s1\<lparr>retry_count := retry_count s1 + 1\<rparr>) w1 pos
              else (s1\<lparr>retry_count := 0\<rparr>, w1)))"

text \<open>The callback handed to \<^verbatim>\<open>setInterval\<close>: the watchdog compares the time since
  the last wake with 50 seconds, then the callback records the wake and polls, whichever way
  the comparison went.  An undefined \<^verbatim>\<open>lastWake\<close> makes the difference
  \<^verbatim>\<open>NaN\<close>, which fails the comparison.\<close>

definition watchdogOk :: "Scheduler \<Rightarrow> World \<Rightarrow> bool" where
  "watchdogOk s w = (case lastWake s of None \<Rightarrow> False | Some t \<Rightarrow> now w - t \<ge> 50000)"

definition wakeCallback :: "Scheduler \<Rightarrow> World \<Rightarrow> Scheduler \<times> World" where
  "wakeCallback s w =
     (let w1 = (if watchdogOk s w then w
                else setPluginError
                       (case timer s of None \<Rightarrow> w | Some h \<Rightarrow> clearInterval w h)
                       ''Weather watch timer error!'')
      in pollWeatherData (s\<lparr>lastWake := Some (now w1)\<rparr>) w1)"

subsection \<open>\<^verbatim>\<open>initWeather\<close>, \<^verbatim>\<open>stopWeather\<close> and the provider methods\<close>

text \<open>\<^verbatim>\<open>(config.pollInterval ?? 60) * 60000\<close>, replaced by one hour when it is
  \<^verbatim>\<open>NaN\<close>.\<close>

definition fetchIntervalOf :: "WEATHER_CONFIG \<Rightarrow> int" where
  "fetchIntervalOf config =
     (case pollInterval config of
        None \<Rightarrow> 60 * 60000
      | Some NaN \<Rightarrow> 60 * 60000
      | Some (Num n) \<Rightarrow> n * 60000)"




text \<open>\<open>fresh\<close> is the cache object the constructor creates.  The registration of the
  provider methods with the host is not recorded.\<close>

definition initWeather :: "Scheduler \<Rightarrow> World \<Rightarrow> WEATHER_CONFIG \<Rightarrow> WCache \<Rightarrow> Scheduler \<times> World" where
  "initWeather s w config fresh =
     (let s1 = s\<lparr>fetchInterval := fetchIntervalOf config,
                 weatherService := Some (new_OpenWeather config fresh)\<rparr>
      in if enable config then pollWeatherData s1 w else (s1, w))"


definition getObservationData :: "Scheduler \<Rightarrow> World \<Rightarrow> Position \<Rightarrow> WeatherReqParams option \<Rightarrow>
    (error + WeatherData list) \<times> Scheduler \<times> World" where
  "getObservationData s w position options =
     (case weatherService s of
        None \<Rightarrow> (Inl (Error ''Error fetching observation data from provider!''), s, w)
      | Some ow \<Rightarrow>
          (case fetchObservations ow w position options None of
             (Inl e, ow', w') \<Rightarrow>
               (Inl (Error ''Error fetching observation data from provider!''),
                s\<lparr>weatherService := Some ow'\<rparr>, w')
           | (Inr r, ow', w') \<Rightarrow> (Inr r, s\<lparr>weatherService := Some ow'\<rparr>, w')))"

definition getForecastData :: "Scheduler \<Rightarrow> World \<Rightarrow> Position \<Rightarrow> WeatherDataType \<Rightarrow>
    WeatherReqParams option \<Rightarrow> (error + WeatherData list) \<times> Scheduler \<times> World" where
  "getForecastData s w position type options =
     (case weatherService s of
        None \<Rightarrow> (Inl (Error ''Error fetching observation data from provider!''), s, w)
      | Some ow \<Rightarrow>
          (case fetchForecasts ow w position type options None of
             (Inl e, ow', w') \<Rightarrow>
               (Inl (Error ''Error fetching observation data from provider!''),
                s\<lparr>weatherService := Some ow'\<rparr>, w')
           | (Inr r, ow', w') \<Rightarrow> (Inr r, s\<lparr>weatherService := Some ow'\<rparr>, w')))"

definition getWarnings :: "Scheduler \<Rightarrow> World \<Rightarrow> Position \<Rightarrow>
    (error + WeatherWarning list) \<times> Scheduler \<times> World" where
  "getWarnings s w position =
     (case weatherService s of
        None \<Rightarrow> (Inl (Error ''Error fetching weather warnings from provider!''), s, w)
      | Some ow \<Rightarrow>
          (case fetchWarnings ow w position None of
             (Inl e, ow', w') \<Rightarrow>
               (Inl (Error ''Error fetching weather warnings from provider!''),
                s\<lparr>weatherService := Some ow'\<rparr>, w')
           | (Inr r, ow', w') \<Rightarrow> (Inr r, s\<lparr>weatherService := Some ow'\<rparr>, w')))"

subsection \<open>Runs of the event loop\<close>

text \<open>
  What the host can do to the module between two of its own actions: let time pass, fire an
  armed periodic timer, fire a pending one-shot timer (which is spent by firing), or change
  the vessel's position.  A handle that is not armed fires nothing.
\<close>

datatype Event = Advance int | Tick nat | Expire nat | Locate "Position option"

definition fire :: "Event \<Rightarrow> Scheduler \<times> World \<Rightarrow> Scheduler \<times> World" where
  "fire ev sw =
     (case sw of (s, w) \<Rightarrow>
        (case ev of
           Advance d \<Rightarrow> (s, w\<lparr>now := now w + d\<rparr>)
         | Tick h \<Rightarrow> if h \<in> set (intervals w) then wakeCallback s w else (s, w)
         | Expire h \<Rightarrow>
             if h \<in> handle ` set (timeouts w) then pollWeatherData s (clearTimeout w h) else (s, w)
         | Locate p \<Rightarrow> (s, w\<lparr>navigation_position := p\<rparr>)))"

fun run :: "Event list \<Rightarrow> Scheduler \<times> World \<Rightarrow> Scheduler \<times> World" where
  "run [] sw = sw"
| "run (ev # evs) sw = run evs (fire ev sw)"

section \<open>The later variant of the scheduler (unnamed source part_003)\<close>

text \<open>
  One of the unnamed source files is a second version of weather-service.ts.  It has one error
  counter instead of two retry loops, arms the periodic timer once in
  \<^verbatim>\<open>initWeather\<close>, and runs the watchdog at the head of
  \<^verbatim>\<open>pollWeatherData\<close>.  Its names carry the suffix \<open>2\<close> here.  The fetch is
  a promise chain (\<^verbatim>\<open>then\<close> / \<^verbatim>\<open>catch\<close>) that the model again runs to
  its end in one step.  Its weather service is taken to be the gateway above.
\<close>

definition errorCountMax :: nat where "errorCountMax = 5"

record Scheduler2 =
  lastWake2 :: "int option"
  lastFetch2 :: "int option"
  fetchInterval2 :: int
  timer2 :: "nat option"
  errorCount :: nat
  weatherService2 :: "OpenWeather option"

definition stopWeather2 :: "Scheduler2 \<Rightarrow> World \<Rightarrow> Scheduler2 \<times> World" where
  "stopWeather2 s w =
     (s\<lparr>timer2 := None, lastFetch2 := Some (fetchInterval2 s - 1), lastWake2 := Some 0\<rparr>,
      case timer2 s of None \<Rightarrow> w | Some h \<Rightarrow> clearInterval w h)"

definition handleError :: "Scheduler2 \<Rightarrow> World \<Rightarrow> Scheduler2 \<times> World" where
  "handleError s w =
     (let s1 = s\<lparr>errorCount := errorCount s + 1\<rparr>
      in if errorCount s1 \<ge> errorCountMax then stopWeather2 s1 w else (s1, w))"

text \<open>\<^verbatim>\<open>err.message\<close>; the engine's wording for its own errors is not modelled.\<close>

definition messageOf :: "error \<Rightarrow> string" where
  "messageOf e = (case e of Error m \<Rightarrow> m | TypeError \<Rightarrow> ''TypeError'' | RangeError \<Rightarrow> ''RangeError'')"

definition runaway :: "Scheduler2 \<Rightarrow> World \<Rightarrow> bool" where
  "runaway s w =
     (case lastWake2 s of
        None \<Rightarrow> False
      | Some t \<Rightarrow> t > 0 \<and> now w - t < wakeInterval - 10000)"

definition notDue2 :: "Scheduler2 \<Rightarrow> World \<Rightarrow> bool" where
  "notDue2 s w =
     (case lastFetch2 s of
        None \<Rightarrow> False
      | Some t \<Rightarrow> t \<noteq> 0 \<and> now w - t < fetchInterval2 s)"

definition pollWeatherData2 :: "Scheduler2 \<Rightarrow> World \<Rightarrow> Scheduler2 \<times> World" where
  "pollWeatherData2 s w =
     (if runaway s w
      then (let (s1, w1) = stopWeather2 s w
            in (s1, setPluginError w1 ''Weather timer stopped by watchdog!''))
      else
        let s1 = s\<lparr>lastWake2 := Some (now w)\<rparr>
        in case navigation_position w of
             None \<Rightarrow> handleError s1 w
           | Some pos \<Rightarrow>
               if notDue2 s1 w then (s1, w)
               else if errorCount s1 < errorCountMax
               then (case weatherService2 s1 of
                       None \<Rightarrow> (s1, w)
                     | Some ow \<Rightarrow>
                         (case fetchObservations ow w pos None (Some True) of
                            (Inl e, ow', w1) \<Rightarrow>
                              (let (s2, w2) = handleError (s1\<lparr>weatherService2 := Some ow'\<rparr>) w1
                               in (s2, setPluginError w2 (messageOf (Error ''Error fetching / parsing weather data!''))))
                          | (Inr obs, ow', w1) \<Rightarrow>
                              (let s2 = s1\<lparr>weatherService2 := Some ow', errorCount := 0,
                                          lastFetch2 := Some (now w1), lastWake2 := Some (now w1)\<rparr>
                               in case emitMeteoDeltas w1 pos (case obs of [] \<Rightarrow> None | x # _ \<Rightarrow> Some x) of
                                    Inl e \<Rightarrow>
                                      (let (s3, w3) = handleError s2 w1
                                       in (s3, setPluginError w3 (messageOf e)))
                                  | Inr w2 \<Rightarrow> (s2, w2))))
               else (s1, w))"

text \<open>\<^verbatim>\<open>initWeather\<close> of this variant schedules the start of the periodic timer
  three seconds ahead, and only when no timer is armed; \<open>startTimer\<close> is that callback.\<close>

definition initWeather2 :: "Scheduler2 \<Rightarrow> World \<Rightarrow> WEATHER_CONFIG \<Rightarrow> WCache \<Rightarrow> Scheduler2 \<times> World" where
  "initWeather2 s w config fresh =
     (let s1 = s\<lparr>errorCount := 0, fetchInterval2 := fetchIntervalOf config,
                 weatherService2 := Some (new_OpenWeather config fresh)\<rparr>
      in if enable config \<and> timer2 s1 = None
         then (s1, snd (setTimeout w StartTimer 3000))
         else (s1, w))"

definition startTimer :: "Scheduler2 \<Rightarrow> World \<Rightarrow> Scheduler2 \<times> World" where
  "startTimer s w =
     (let (h, w1) = setInterval w in pollWeatherData2 (s\<lparr>timer2 := Some h\<rparr>) w1)"

section \<open>A concrete installation\<close>

text \<open>The values on which the general theorems are instantiated and the runs are
  evaluated: a vessel at 10N 20E, a poll interval of 15 minutes, a cache with a two-cell
  grid that starts empty, and a provider that answers with a current observation.\<close>

definition example_position :: Position where
  "example_position = \<lparr>latitude = 10, longitude = 20\<rparr>"

definition example_config :: WEATHER_CONFIG where
  "example_config = \<lparr>apiKey = ''key'', enable = True, pollInterval = Some (Num 15)\<rparr>"

definition example_cache :: WCache where
  "example_cache = \<lparr>calcId = (\<lambda>p. if longitude p < 0 then ''west'' else ''east''),
     entries = Map.empty, maxAge = None\<rparr>"

definition example_world :: World where
  "example_world = \<lparr>now = 1700000000000, responses = [], requests = [],
     navigation_position = Some example_position, intervals = [], timeouts = [],
     next_handle = 1, pluginErrors = [], messages = []\<rparr>"

definition empty_response :: OWResponse where
  "empty_response = \<lparr>cod = None, message = None, current = None, hourly = None,
     daily = None, alerts = None\<rparr>"

definition clear_sky :: OWWeather where
  "clear_sky = \<lparr>wi_id = 800, wi_main = ''Clear'', wi_description = Some ''clear sky'',
     wi_icon = ''01d''\<rparr>"

definition bare_observation :: OWObservation where
  "bare_observation = \<lparr>o_dt = None, o_sunrise = None, o_sunset = None, o_temp = None,
     o_feels_like = None, o_pressure = None, o_humidity = None, o_dew_point = None,
     o_uvi = None, o_clouds = None, o_visibility = None, o_wind_speed = None,
     o_wind_deg = None, o_weather = [], o_rain = None, o_snow = None\<rparr>"

definition example_current :: OWObservation where
  "example_current = bare_observation\<lparr>o_dt := Some 1700000000, o_temp := Some 285,
     o_weather := [clear_sky]\<rparr>"

definition bare_forecast :: OWForecast where
  "bare_forecast = \<lparr>f_dt = None, f_sunrise = None, f_sunset = None, f_temp = None,
     f_feels_like = None, f_pressure = None, f_humidity = None, f_dew_point = None,
     f_wind_speed = None, f_wind_deg = None, f_wind_gust = None, f_weather = [clear_sky],
     f_clouds = None, f_uvi = None, f_rain = None, f_snow = None\<rparr>"

definition example_alert :: OWWarning where
  "example_alert = \<lparr>w_sender_name = Some ''NWS'', w_event = Some ''Gale'',
     w_start = Some 1700000000, w_end = Some 1700003600, w_description = Some ''windy'',
     w_tags = []\<rparr>"

definition example_response :: OWResponse where
  "example_response = empty_response\<lparr>current := Some example_current\<rparr>"

definition example_service :: OpenWeather where
  "example_service = new_OpenWeather example_config example_cache"

text \<open>The same service after the provider's answer has been put in the cache at the
  current instant.\<close>

definition cached_service :: OpenWeather where
  "cached_service = example_service\<lparr>wcache :=
     setEntry (wcache example_service) (now example_world) ''east'' example_response\<rparr>"

text \<open>A time value that is a valid date, and a timestamp in seconds that gives one.\<close>

definition validTime :: "int \<Rightarrow> bool" where
  "validTime ms = (- 8640000000000000 \<le> ms \<and> ms \<le> 8640000000000000)"

definition validStamp :: "int option \<Rightarrow> bool" where
  "validStamp t = (case t of None \<Rightarrow> True | Some v \<Rightarrow> validTime (v * 1000))"

text \<open>An hourly answer of three entries, one hour apart, and the record the translation
  makes of such an entry.\<close>

definition three_hours :: OWResponse where
  "three_hours = empty_response\<lparr>hourly := Some
     [bare_forecast\<lparr>f_dt := Some 1700000000\<rparr>,
      bare_forecast\<lparr>f_dt := Some 1700003600\<rparr>,
      bare_forecast\<lparr>f_dt := Some 1700007200\<rparr>]\<rparr>"

definition hour_forecast :: "string \<Rightarrow> WeatherData" where
  "hour_forecast d = \<lparr>date = d, description = ''clear sky'', type' = point, sun = None,
     outside = Some no_outside, water = None, wind = None\<rparr>"

text \<open>The record the translation makes of \<open>example_response\<close>.\<close>

definition example_observation :: WeatherData where
  "example_observation = \<lparr>date = ''2023-11-14T22:13:20.000Z'', description = ''clear sky'',
     type' = observation, sun = None,
     outside = Some (no_outside\<lparr>temperature := Some (Number 285)\<rparr>),
     water = None, wind = None\<rparr>"

definition gale_response :: OWResponse where
  "gale_response = empty_response\<lparr>alerts := Some [example_alert]\<rparr>"

text \<open>An answer whose \<^verbatim>\<open>current\<close> object has an empty \<^verbatim>\<open>weather\<close> array.\<close>

definition no_weather_response :: OWResponse where
  "no_weather_response = empty_response\<lparr>current := Some bare_observation\<rparr>"




text \<open>The plugin started with polling enabled while the provider answers every call, and
  \<open>n\<close> minutes in which the periodic timer \<open>h\<close> fires once a minute.\<close>

definition started :: "Scheduler \<times> World" where
  "started = initWeather module_loaded
     (example_world\<lparr>responses := replicate 4 (Json example_response)\<rparr>)
     example_config example_cache"

definition minutes :: "nat \<Rightarrow> nat \<Rightarrow> Event list" where
  "minutes n h = concat (replicate n [Advance wakeInterval, Tick h])"

text \<open>\<open>n\<close> times over: the one-shot timer the module holds in \<^verbatim>\<open>retryTimer\<close>, if
  it is still pending, fires when it is due.  With no such timer pending nothing happens any
  more.\<close>

fun retries :: "nat \<Rightarrow> Scheduler \<times> World \<Rightarrow> Scheduler \<times> World" where
  "retries 0 sw = sw"
| "retries (Suc n) (s, w) =
     (case filter (\<lambda>t. Some (handle t) = retryTimer s) (timeouts w) of
        [] \<Rightarrow> (s, w)
      | t # _ \<Rightarrow> retries n (fire (Expire (handle t)) (s, w\<lparr>now := due t\<rparr>)))"





definition offline_module :: Scheduler where
  "offline_module = module_loaded\<lparr>fetchInterval := 900000,
     weatherService := Some example_service\<rparr>"


text \<open>The run of the started plugin: the quarter of an hour up to the second poll, the
  minute after it in which both armed timers fire, and the fourteen minutes after that.\<close>

definition second_poll :: "Scheduler \<times> World" where
  "second_poll = run (minutes 15 1) started"

definition before_trip :: "Scheduler \<times> World" where
  "before_trip = run [Advance wakeInterval, Tick 1] second_poll"

definition after_trip :: "Scheduler \<times> World" where
  "after_trip = fire (Tick 2) before_trip"

definition later_on :: "Scheduler \<times> World" where
  "later_on = run (minutes 14 1) after_trip"

section \<open>Helper facts\<close>

lemma traverse_Inr:
  "traverse f xs = Inr ys \<Longrightarrow>
     length ys = length xs \<and> (\<forall>i < length xs. f (xs ! i) = Inr (ys ! i))"
proof (induction xs arbitrary: ys)
  case Nil
  then show ?case by simp
next
  case (Cons x xs)
  from Cons.prems obtain y ys' where fx: "f x = Inr y"
    and t: "traverse f xs = Inr ys'" and ys: "ys = y # ys'"
    by (auto split: sum.splits)
  from Cons.IH[OF t] have len: "length ys' = length xs"
    and nth: "\<forall>i < length xs. f (xs ! i) = Inr (ys' ! i)"
    by simp_all
  show ?case
  proof (intro conjI allI impI)
    show "length ys = length (x # xs)" using len ys by simp
  next
    fix i assume "i < length (x # xs)"
    then show "f ((x # xs) ! i) = Inr (ys ! i)"
      using fx nth ys by (cases i) simp_all
  qed
qed

subsection \<open>The gateway's two sources of a payload\<close>

lemma fetchData_success:
  assumes "responses w = Json d # rs" "cod d = None"
  shows "fetchData ow w position =
           (Inr d,
            ow\<lparr>wcache := setEntry (wcache ow) (now w) (calcId (wcache ow) position) d\<rparr>,
            w\<lparr>requests := requests w @ [getUrl ow position], responses := rs\<rparr>)"
  using assms by (simp add: fetchData_def fetch_def)

lemma fetchData_world:
  "snd (snd (fetchData ow w position)) =
     w\<lparr>requests := requests w @ [getUrl ow position], responses := tl (responses w)\<rparr>"
  by (simp add: fetchData_def fetch_def Let_def split: list.splits FetchOutcome.splits)

lemma fetchData_service:
  "settings (fst (snd (fetchData ow w position))) = settings ow \<and>
   maxAge (wcache (fst (snd (fetchData ow w position)))) = maxAge (wcache ow) \<and>
   calcId (wcache (fst (snd (fetchData ow w position)))) = calcId (wcache ow)"
  by (simp add: fetchData_def fetch_def Let_def setEntry_def
           split: list.splits FetchOutcome.splits)

lemma resolve_hit:
  assumes "bypassCache \<noteq> Some True" "contains (wcache ow) (now w) position = Some i"
  shows "resolve ow w position bypassCache = (Inr (getEntry (wcache ow) i), ow, w)"
  using assms by (simp add: resolve_def)

lemma resolve_remote:
  assumes "bypassCache = Some True \<or> contains (wcache ow) (now w) position = None"
  shows "resolve ow w position bypassCache =
           (map_sum id Some (fst (fetchData ow w position)), snd (fetchData ow w position))"
  using assms by (auto simp: resolve_def split: prod.splits sum.splits)

lemma resolve_remote_success:
  assumes "bypassCache = Some True \<or> contains (wcache ow) (now w) position = None"
      and "responses w = Json d # rs" "cod d = None"
  shows "resolve ow w position bypassCache =
           (Inr (Some d),
            ow\<lparr>wcache := setEntry (wcache ow) (now w) (calcId (wcache ow) position) d\<rparr>,
            w\<lparr>requests := requests w @ [getUrl ow position], responses := rs\<rparr>)"
  using resolve_remote[OF assms(1)] fetchData_success[OF assms(2,3)] by simp

lemma resolve_remote_requests:
  assumes "bypassCache = Some True \<or> contains (wcache ow) (now w) position = None"
  shows "requests (snd (snd (resolve ow w position bypassCache))) =
           requests w @ [getUrl ow position]"
  using resolve_remote[OF assms] by (simp add: fetchData_world)


lemma getEntry_setEntry: "getEntry (setEntry c t i d) i = Some d"
  by (simp add: getEntry_def setEntry_def)

lemma calcId_setEntry: "calcId (setEntry c t i d) = calcId c"
  by (simp add: setEntry_def)

lemma fetchObservations_state:
  "snd (fetchObservations ow w position options bypassCache) =
     snd (resolve ow w position bypassCache)"
  by (simp add: fetchObservations_def split: prod.splits sum.splits)

lemma fetchForecasts_state:
  "snd (fetchForecasts ow w position type options bypassCache) =
     snd (resolve ow w position bypassCache)"
  by (simp add: fetchForecasts_def split: prod.splits sum.splits)

lemma fetchWarnings_state:
  "snd (fetchWarnings ow w position bypassCache) = snd (resolve ow w position bypassCache)"
  by (simp add: fetchWarnings_def split: prod.splits sum.splits)


lemma fetchObservations_remote_success:
  assumes "bypassCache = Some True \<or> contains (wcache ow) (now w) position = None"
      and "responses w = Json d # rs" "cod d = None"
  shows "fetchObservations ow w position options bypassCache =
           (observationsOf (now w) options (Some d),
            ow\<lparr>wcache := setEntry (wcache ow) (now w) (calcId (wcache ow) position) d\<rparr>,
            w\<lparr>requests := requests w @ [getUrl ow position], responses := rs\<rparr>)"
  using resolve_remote_success[OF assms] by (simp add: fetchObservations_def)

subsection \<open>Evaluation of the concrete installation\<close>

lemmas example_defs =
  example_position_def example_config_def example_cache_def example_world_def
  empty_response_def clear_sky_def bare_observation_def example_current_def
  bare_forecast_def example_alert_def example_response_def example_service_def
  cached_service_def new_OpenWeather_def


lemma contains_example:
  "contains (wcache example_service) (now example_world) example_position = None"
  by (simp add: example_defs contains_def maxAgeMillis_def)

section \<open>The gateway: cache or remote service\<close>



text \<open>
  Claim C2.  With \<^verbatim>\<open>bypassCache\<close> true each of the three fetch functions calls the
  remote service whatever the cache holds; every successful remote call, bypassing or not,
  writes the payload into the cache under the position's key; and after two bypassing calls
  in succession, answered with \<open>da\<close> and then \<open>db\<close>, the cache holds \<open>db\<close> for the
  position.
\<close>

theorem bypass_calls_remote_and_refreshes_cache:
  "requests (snd (snd (fetchObservations ow w position options (Some True)))) =
     requests w @ [getUrl ow position]
   \<and> requests (snd (snd (fetchForecasts ow w position type options (Some True)))) =
       requests w @ [getUrl ow position]
   \<and> requests (snd (snd (fetchWarnings ow w position (Some True)))) =
       requests w @ [getUrl ow position]
   \<and> ((bypassCache = Some True \<or> contains (wcache ow) (now w) position = None) \<and>
        responses w = Json d # rs \<and> cod d = None \<longrightarrow>
        fst (snd (fetchObservations ow w position options bypassCache)) =
          ow\<lparr>wcache := setEntry (wcache ow) (now w) (calcId (wcache ow) position) d\<rparr> \<and>
        fst (snd (fetchForecasts ow w position type options bypassCache)) =
          ow\<lparr>wcache := setEntry (wcache ow) (now w) (calcId (wcache ow) position) d\<rparr> \<and>
        fst (snd (fetchWarnings ow w position bypassCache)) =
          ow\<lparr>wcache := setEntry (wcache ow) (now w) (calcId (wcache ow) position) d\<rparr>)
   \<and> (responses w = Json da # Json db # rs \<and> cod da = None \<and> cod db = None \<longrightarrow>
        (case fetchObservations ow w position options (Some True) of
           (r1, ow1, w1) \<Rightarrow>
             (case fetchObservations ow1 w1 position options (Some True) of
                (r2, ow2, w2) \<Rightarrow>
                  getEntry (wcache ow2) (calcId (wcache ow) position) = Some db \<and>
                  requests w2 = requests w @ [getUrl ow position, getUrl ow position])))"
proof (intro conjI impI)
  have b: "Some True = Some True \<or> contains (wcache ow) (now w) position = None" by simp
  show "requests (snd (snd (fetchObservations ow w position options (Some True)))) =
          requests w @ [getUrl ow position]"
    using resolve_remote_requests[OF b] by (simp add: fetchObservations_state)
  show "requests (snd (snd (fetchForecasts ow w position type options (Some True)))) =
          requests w @ [getUrl ow position]"
    using resolve_remote_requests[OF b] by (simp add: fetchForecasts_state)
  show "requests (snd (snd (fetchWarnings ow w position (Some True)))) =
          requests w @ [getUrl ow position]"
    using resolve_remote_requests[OF b] by (simp add: fetchWarnings_state)
next
  assume a: "(bypassCache = Some True \<or> contains (wcache ow) (now w) position = None) \<and>
             responses w = Json d # rs \<and> cod d = None"
  then have r: "snd (resolve ow w position bypassCache) =
      (ow\<lparr>wcache := setEntry (wcache ow) (now w) (calcId (wcache ow) position) d\<rparr>,
       w\<lparr>requests := requests w @ [getUrl ow position], responses := rs\<rparr>)"
    using resolve_remote_success[of bypassCache ow w position d rs] by simp
  show "fst (snd (fetchObservations ow w position options bypassCache)) =
          ow\<lparr>wcache := setEntry (wcache ow) (now w) (calcId (wcache ow) position) d\<rparr>"
    using r by (simp add: fetchObservations_state)
  show "fst (snd (fetchForecasts ow w position type options bypassCache)) =
          ow\<lparr>wcache := setEntry (wcache ow) (now w) (calcId (wcache ow) position) d\<rparr>"
    using r by (simp add: fetchForecasts_state)
  show "fst (snd (fetchWarnings ow w position bypassCache)) =
          ow\<lparr>wcache := setEntry (wcache ow) (now w) (calcId (wcache ow) position) d\<rparr>"
    using r by (simp add: fetchWarnings_state)
next
  assume a: "responses w = Json da # Json db # rs \<and> cod da = None \<and> cod db = None"
  let ?k = "calcId (wcache ow) position"
  let ?ow1 = "ow\<lparr>wcache := setEntry (wcache ow) (now w) ?k da\<rparr>"
  let ?w1 = "w\<lparr>requests := requests w @ [getUrl ow position], responses := Json db # rs\<rparr>"
  have f1: "fetchObservations ow w position options (Some True) =
              (observationsOf (now w) options (Some da), ?ow1, ?w1)"
    using a fetchObservations_remote_success[of "Some True" ow w position da "Json db # rs"]
    by simp
  have k1: "calcId (wcache ?ow1) position = ?k" by (simp add: calcId_setEntry)
  have u1: "getUrl ?ow1 position = getUrl ow position" by (simp add: getUrl_def)
  have f2: "fetchObservations ?ow1 ?w1 position options (Some True) =
              (observationsOf (now ?w1) options (Some db),
               ?ow1\<lparr>wcache := setEntry (wcache ?ow1) (now ?w1) ?k db\<rparr>,
               ?w1\<lparr>requests := requests ?w1 @ [getUrl ow position], responses := rs\<rparr>)"
    using a fetchObservations_remote_success[of "Some True" ?ow1 ?w1 position db rs] k1 u1
    by simp
  show "case fetchObservations ow w position options (Some True) of
          (r1, ow1, w1) \<Rightarrow>
            (case fetchObservations ow1 w1 position options (Some True) of
               (r2, ow2, w2) \<Rightarrow>
                 getEntry (wcache ow2) ?k = Some db \<and>
                 requests w2 = requests w @ [getUrl ow position, getUrl ow position])"
    by (simp only: f1 f2 prod.case) (simp add: getEntry_setEntry)
qed

theorem bypass_calls_remote_and_refreshes_cache_witness:
  "requests (snd (snd (fetchObservations cached_service
      (example_world\<lparr>responses := [Json empty_response, Json example_response]\<rparr>)
      example_position None (Some True)))) = [OneCall 10 20 ''key'']
   \<and> (case fetchObservations cached_service
             (example_world\<lparr>responses := [Json empty_response, Json example_response]\<rparr>)
             example_position None (Some True) of
         (r1, ow1, w1) \<Rightarrow>
           (case fetchObservations ow1 w1 example_position None (Some True) of
              (r2, ow2, w2) \<Rightarrow>
                getEntry (wcache ow2) ''east'' = Some example_response \<and>
                requests w2 = [OneCall 10 20 ''key'', OneCall 10 20 ''key'']))"
proof -
  let ?w = "example_world\<lparr>responses := [Json empty_response, Json example_response]\<rparr>"
  have r: "responses ?w = Json empty_response # Json example_response # []" by simp
  have k: "cod empty_response = None" "cod example_response = None"
    by (simp_all add: example_response_def empty_response_def)
  have u: "getUrl cached_service example_position = OneCall 10 20 ''key''"
    by (simp add: getUrl_def example_defs)
  have i: "calcId (wcache cached_service) example_position = ''east''"
    by (simp add: example_defs setEntry_def)
  have q: "requests ?w = []" by (simp add: example_world_def)
  show ?thesis
    using bypass_calls_remote_and_refreshes_cache
            [where ow = cached_service and w = ?w and position = example_position
               and options = None and da = empty_response and db = example_response
               and rs = "[]"]
          r k
    by (simp only: u i q append_Nil)
qed

section \<open>The on-demand results\<close>

lemma upToMaxCount_zero:
  "upToMaxCount (Some \<lparr>maxCount = Some 0, startDate = sd\<rparr>) xs = xs"
  by (simp add: upToMaxCount_def truthy_def)

lemma upToMaxCount_positive:
  "1 \<le> n \<Longrightarrow> upToMaxCount (Some \<lparr>maxCount = Some n, startDate = sd\<rparr>) xs = take (nat n) xs"
  by (simp add: upToMaxCount_def truthy_def slice0_def)

lemma upToMaxCount_absent: "upToMaxCount None xs = xs"
  by (simp add: upToMaxCount_def)

lemma observationsOf_options:
  "observationsOf t options owData =
     map_sum id (upToMaxCount options) (observationsOf t None owData)"
  by (simp add: observationsOf_def upToMaxCount_absent split: sum.splits)

lemma forecastsOf_options:
  "forecastsOf t type options owData =
     map_sum id (upToMaxCount options) (forecastsOf t type None owData)"
  by (simp add: forecastsOf_def upToMaxCount_absent split: sum.splits)

lemma fetchObservations_options:
  "fetchObservations ow w position options bypassCache =
     (case fetchObservations ow w position None bypassCache of
        (r, ow', w') \<Rightarrow> (map_sum id (upToMaxCount options) r, ow', w'))"
  unfolding fetchObservations_def
  by (subst observationsOf_options) (simp split: prod.splits sum.splits)

lemma fetchForecasts_options:
  "fetchForecasts ow w position type options bypassCache =
     (case fetchForecasts ow w position type None bypassCache of
        (r, ow', w') \<Rightarrow> (map_sum id (upToMaxCount options) r, ow', w'))"
  unfolding fetchForecasts_def
  by (subst forecastsOf_options) (simp split: prod.splits sum.splits)

lemma map_sum_id_id: "map_sum id (\<lambda>xs. xs) r = r"
  by (cases r) simp_all

lemma maxCount_relative:
  assumes "1 \<le> n"
  shows "fetchObservations ow w position (Some \<lparr>maxCount = Some 0, startDate = sd\<rparr>) bypassCache =
           fetchObservations ow w position None bypassCache
       \<and> fetchForecasts ow w position type (Some \<lparr>maxCount = Some 0, startDate = sd\<rparr>) bypassCache =
           fetchForecasts ow w position type None bypassCache
       \<and> fetchObservations ow w position (Some \<lparr>maxCount = Some n, startDate = sd\<rparr>) bypassCache =
           (case fetchObservations ow w position None bypassCache of
              (r, ow', w') \<Rightarrow> (map_sum id (take (nat n)) r, ow', w'))
       \<and> fetchForecasts ow w position type (Some \<lparr>maxCount = Some n, startDate = sd\<rparr>) bypassCache =
           (case fetchForecasts ow w position type None bypassCache of
              (r, ow', w') \<Rightarrow> (map_sum id (take (nat n)) r, ow', w'))"
proof (intro conjI)
  have z: "upToMaxCount (Some \<lparr>maxCount = Some 0, startDate = sd\<rparr>) = (\<lambda>xs::WeatherData list. xs)"
    by (rule ext) (rule upToMaxCount_zero)
  have p: "upToMaxCount (Some \<lparr>maxCount = Some n, startDate = sd\<rparr>) = (take (nat n) :: WeatherData list \<Rightarrow> _)"
    by (rule ext) (rule upToMaxCount_positive[OF assms])
  show "fetchObservations ow w position (Some \<lparr>maxCount = Some 0, startDate = sd\<rparr>) bypassCache =
          fetchObservations ow w position None bypassCache"
    by (subst fetchObservations_options) (simp add: z map_sum_id_id split: prod.splits)
  show "fetchForecasts ow w position type (Some \<lparr>maxCount = Some 0, startDate = sd\<rparr>) bypassCache =
          fetchForecasts ow w position type None bypassCache"
    by (subst fetchForecasts_options) (simp add: z map_sum_id_id split: prod.splits)
  show "fetchObservations ow w position (Some \<lparr>maxCount = Some n, startDate = sd\<rparr>) bypassCache =
          (case fetchObservations ow w position None bypassCache of
             (r, ow', w') \<Rightarrow> (map_sum id (take (nat n)) r, ow', w'))"
    by (subst fetchObservations_options) (simp add: p)
  show "fetchForecasts ow w position type (Some \<lparr>maxCount = Some n, startDate = sd\<rparr>) bypassCache =
          (case fetchForecasts ow w position type None bypassCache of
             (r, ow', w') \<Rightarrow> (map_sum id (take (nat n)) r, ow', w'))"
    by (subst fetchForecasts_options) (simp add: p)
qed

lemma fetchObservations_parsed:
  assumes "resolve ow w position bypassCache = (Inr owData, ow', w')"
      and "parseOWObservations (now w') owData = Inr obs"
  shows "fetchObservations ow w position options bypassCache =
           (Inr (upToMaxCount options obs), ow', w')"
  using assms by (simp add: fetchObservations_def observationsOf_def)

lemma fetchForecasts_parsed:
  assumes "resolve ow w position bypassCache = (Inr owData, ow', w')"
      and "parseOWForecasts (now w') owData type = Inr fs"
  shows "fetchForecasts ow w position type options bypassCache =
           (Inr (upToMaxCount options fs), ow', w')"
  using assms by (simp add: fetchForecasts_def forecastsOf_def)

text \<open>
  Claim C8.  Let the gateway resolve a payload and the translation make the list \<open>obs\<close>
  of it (for forecasts, \<open>fs\<close>).  Then \<^verbatim>\<open>fetchObservations\<close> returns \<open>obs\<close>
  itself both without options and with \<^verbatim>\<open>maxCount\<close> equal to 0, and the first
  \<^verbatim>\<open>maxCount\<close> entries of \<open>obs\<close> with \<^verbatim>\<open>maxCount\<close> at least 1;
  \<^verbatim>\<open>fetchForecasts\<close> does the same with \<open>fs\<close>.  Whatever the outcome without
  options is, also an error, \<^verbatim>\<open>maxCount\<close> 0 gives the same outcome and
  \<^verbatim>\<open>maxCount\<close> at least 1 gives it cut to its first entries.
\<close>

theorem maxCount_zero_is_unlimited:
  assumes "1 \<le> n"
      and "resolve ow w position bypassCache = (Inr owData, ow', w')"
  shows "(parseOWObservations (now w') owData = Inr obs \<longrightarrow>
            fetchObservations ow w position None bypassCache = (Inr obs, ow', w') \<and>
            fetchObservations ow w position (Some \<lparr>maxCount = Some 0, startDate = sd\<rparr>)
              bypassCache = (Inr obs, ow', w') \<and>
            fetchObservations ow w position (Some \<lparr>maxCount = Some n, startDate = sd\<rparr>)
              bypassCache = (Inr (take (nat n) obs), ow', w'))
       \<and> (parseOWForecasts (now w') owData type = Inr fs \<longrightarrow>
            fetchForecasts ow w position type None bypassCache = (Inr fs, ow', w') \<and>
            fetchForecasts ow w position type (Some \<lparr>maxCount = Some 0, startDate = sd\<rparr>)
              bypassCache = (Inr fs, ow', w') \<and>
            fetchForecasts ow w position type (Some \<lparr>maxCount = Some n, startDate = sd\<rparr>)
              bypassCache = (Inr (take (nat n) fs), ow', w'))
       \<and> fetchObservations ow w position (Some \<lparr>maxCount = Some 0, startDate = sd\<rparr>) bypassCache =
           fetchObservations ow w position None bypassCache
       \<and> fetchForecasts ow w position type (Some \<lparr>maxCount = Some 0, startDate = sd\<rparr>) bypassCache =
           fetchForecasts ow w position type None bypassCache
       \<and> fetchObservations ow w position (Some \<lparr>maxCount = Some n, startDate = sd\<rparr>) bypassCache =
           (case fetchObservations ow w position None bypassCache of
              (r, ow', w') \<Rightarrow> (map_sum id (take (nat n)) r, ow', w'))
       \<and> fetchForecasts ow w position type (Some \<lparr>maxCount = Some n, startDate = sd\<rparr>) bypassCache =
           (case fetchForecasts ow w position type None bypassCache of
              (r, ow', w') \<Rightarrow> (map_sum id (take (nat n)) r, ow', w'))"
proof -
  have o: "parseOWObservations (now w') owData = Inr obs \<longrightarrow>
            fetchObservations ow w position None bypassCache = (Inr obs, ow', w') \<and>
            fetchObservations ow w position (Some \<lparr>maxCount = Some 0, startDate = sd\<rparr>)
              bypassCache = (Inr obs, ow', w') \<and>
            fetchObservations ow w position (Some \<lparr>maxCount = Some n, startDate = sd\<rparr>)
              bypassCache = (Inr (take (nat n) obs), ow', w')"
    using fetchObservations_parsed[OF assms(2)]
    by (simp add: upToMaxCount_absent upToMaxCount_zero upToMaxCount_positive[OF assms(1)])
  have f: "parseOWForecasts (now w') owData type = Inr fs \<longrightarrow>
            fetchForecasts ow w position type None bypassCache = (Inr fs, ow', w') \<and>
            fetchForecasts ow w position type (Some \<lparr>maxCount = Some 0, startDate = sd\<rparr>)
              bypassCache = (Inr fs, ow', w') \<and>
            fetchForecasts ow w position type (Some \<lparr>maxCount = Some n, startDate = sd\<rparr>)
              bypassCache = (Inr (take (nat n) fs), ow', w')"
    using fetchForecasts_parsed[OF assms(2)]
    by (simp add: upToMaxCount_absent upToMaxCount_zero upToMaxCount_positive[OF assms(1)])
  from o f maxCount_relative[OF assms(1), of ow w position sd bypassCache type]
  show ?thesis by blast
qed

lemma example_response_parsed:
  "parseOWObservations (now example_world) (Some example_response) = Inr [example_observation]"
  by code_simp

lemma three_hours_parsed:
  "parseOWForecasts (now example_world) (Some three_hours) point =
     Inr [hour_forecast ''2023-11-14T22:13:20.000Z'',
          hour_forecast ''2023-11-14T23:13:20.000Z'',
          hour_forecast ''2023-11-15T00:13:20.000Z'']"
  by code_simp

theorem maxCount_zero_is_unlimited_witness:
  "fst (fetchObservations example_service
          (example_world\<lparr>responses := [Json example_response]\<rparr>) example_position
          (Some \<lparr>maxCount = Some 0, startDate = None\<rparr>) None) = Inr [example_observation]
   \<and> fst (fetchObservations example_service
          (example_world\<lparr>responses := [Json example_response]\<rparr>) example_position
          (Some \<lparr>maxCount = Some 2, startDate = None\<rparr>) None) = Inr [example_observation]
   \<and> fst (fetchForecasts example_service (example_world\<lparr>responses := [Json three_hours]\<rparr>)
          example_position point (Some \<lparr>maxCount = Some 0, startDate = None\<rparr>) None) =
     Inr [hour_forecast ''2023-11-14T22:13:20.000Z'',
          hour_forecast ''2023-11-14T23:13:20.000Z'',
          hour_forecast ''2023-11-15T00:13:20.000Z'']
   \<and> fst (fetchForecasts example_service (example_world\<lparr>responses := [Json three_hours]\<rparr>)
          example_position point (Some \<lparr>maxCount = Some 2, startDate = None\<rparr>) None) =
     Inr [hour_forecast ''2023-11-14T22:13:20.000Z'',
          hour_forecast ''2023-11-14T23:13:20.000Z'']"
proof -
  have h: "(1::int) \<le> 2" by simp
  let ?w = "example_world\<lparr>responses := [Json example_response]\<rparr>"
  let ?v = "example_world\<lparr>responses := [Json three_hours]\<rparr>"
  have c: "contains (wcache example_service) (now ?w) example_position = None"
          "contains (wcache example_service) (now ?v) example_position = None"
    using contains_example by simp_all
  have k: "cod example_response = None" "cod three_hours = None"
    by (simp_all add: example_response_def three_hours_def empty_response_def)
  have r1: "resolve example_service ?w example_position None =
      (Inr (Some example_response),
       example_service\<lparr>wcache := setEntry (wcache example_service) (now ?w)
          (calcId (wcache example_service) example_position) example_response\<rparr>,
       ?w\<lparr>requests := requests ?w @ [getUrl example_service example_position],
           responses := []\<rparr>)"
    using c(1) k(1) by (intro resolve_remote_success) simp_all
  have r2: "resolve example_service ?v example_position None =
      (Inr (Some three_hours),
       example_service\<lparr>wcache := setEntry (wcache example_service) (now ?v)
          (calcId (wcache example_service) example_position) three_hours\<rparr>,
       ?v\<lparr>requests := requests ?v @ [getUrl example_service example_position],
           responses := []\<rparr>)"
    using c(2) k(2) by (intro resolve_remote_success) simp_all
  have p1: "parseOWObservations
              (now (?w\<lparr>requests := requests ?w @ [getUrl example_service example_position],
                        responses := []\<rparr>)) (Some example_response) =
            Inr [example_observation]"
    using example_response_parsed by simp
  have p2: "parseOWForecasts
              (now (?v\<lparr>requests := requests ?v @ [getUrl example_service example_position],
                        responses := []\<rparr>)) (Some three_hours) point =
            Inr [hour_forecast ''2023-11-14T22:13:20.000Z'',
                 hour_forecast ''2023-11-14T23:13:20.000Z'',
                 hour_forecast ''2023-11-15T00:13:20.000Z'']"
    using three_hours_parsed by simp
  have a: "fetchObservations example_service ?w example_position
             (Some \<lparr>maxCount = Some 0, startDate = None\<rparr>) None =
           (Inr [example_observation],
            example_service\<lparr>wcache := setEntry (wcache example_service) (now ?w)
               (calcId (wcache example_service) example_position) example_response\<rparr>,
            ?w\<lparr>requests := requests ?w @ [getUrl example_service example_position],
                responses := []\<rparr>)
         \<and> fetchObservations example_service ?w example_position
             (Some \<lparr>maxCount = Some 2, startDate = None\<rparr>) None =
           (Inr (take (nat 2) [example_observation]),
            example_service\<lparr>wcache := setEntry (wcache example_service) (now ?w)
               (calcId (wcache example_service) example_position) example_response\<rparr>,
            ?w\<lparr>requests := requests ?w @ [getUrl example_service example_position],
                responses := []\<rparr>)"
    using maxCount_zero_is_unlimited[OF h r1, where obs = "[example_observation]" and sd = None]
          p1
    by blast
  have b: "fetchForecasts example_service ?v example_position point
             (Some \<lparr>maxCount = Some 0, startDate = None\<rparr>) None =
           (Inr [hour_forecast ''2023-11-14T22:13:20.000Z'',
                 hour_forecast ''2023-11-14T23:13:20.000Z'',
                 hour_forecast ''2023-11-15T00:13:20.000Z''],
            example_service\<lparr>wcache := setEntry (wcache example_service) (now ?v)
               (calcId (wcache example_service) example_position) three_hours\<rparr>,
            ?v\<lparr>requests := requests ?v @ [getUrl example_service example_position],
                responses := []\<rparr>)
         \<and> fetchForecasts example_service ?v example_position point
             (Some \<lparr>maxCount = Some 2, startDate = None\<rparr>) None =
           (Inr (take (nat 2) [hour_forecast ''2023-11-14T22:13:20.000Z'',
                 hour_forecast ''2023-11-14T23:13:20.000Z'',
                 hour_forecast ''2023-11-15T00:13:20.000Z'']),
            example_service\<lparr>wcache := setEntry (wcache example_service) (now ?v)
               (calcId (wcache example_service) example_position) three_hours\<rparr>,
            ?v\<lparr>requests := requests ?v @ [getUrl example_service example_position],
                responses := []\<rparr>)"
    using maxCount_zero_is_unlimited
            [OF h r2, where type = point and sd = None
               and fs = "[hour_forecast ''2023-11-14T22:13:20.000Z'',
                          hour_forecast ''2023-11-14T23:13:20.000Z'',
                          hour_forecast ''2023-11-15T00:13:20.000Z'']"]
          p2
    by blast
  have t: "nat 2 = Suc (Suc 0)" by simp
  show ?thesis
    using a b by (simp add: t)
qed

subsection \<open>Observations\<close>

lemma toISOString_valid: "validTime ms \<Longrightarrow> \<exists>s. toISOString ms = Inr s"
  by (auto simp: toISOString_def validTime_def Let_def split: prod.splits)

lemma dateOf_valid:
  "validTime t \<Longrightarrow> validStamp dt \<Longrightarrow> \<exists>s. dateOf t dt = Inr s"
  by (auto simp: dateOf_def validStamp_def toISOString_valid split: option.splits)

lemma isoOpt_valid: "validStamp t \<Longrightarrow> \<exists>r. isoOpt t = Inr r"
proof (cases t)
  case None
  then show ?thesis by (simp add: isoOpt_def)
next
  case (Some v)
  assume "validStamp t"
  with Some obtain s where "toISOString (v * 1000) = Inr s"
    using toISOString_valid[of "v * 1000"] by (auto simp: validStamp_def)
  with Some show ?thesis by (simp add: isoOpt_def)
qed

lemma parseCurrent_valid:
  assumes "o_weather cur \<noteq> []" "validTime t" "validStamp (o_dt cur)"
      and "validStamp (o_sunrise cur)" "validStamp (o_sunset cur)"
  shows "\<exists>ob. parseCurrent t cur = Inr ob"
proof -
  obtain d where d: "dateOf t (o_dt cur) = Inr d"
    using dateOf_valid[OF assms(2,3)] by blast
  obtain x xs where ws: "o_weather cur = x # xs"
    using assms(1) by (cases "o_weather cur") auto
  obtain r where r: "isoOpt (o_sunrise cur) = Inr r"
    using isoOpt_valid[OF assms(4)] by blast
  obtain s where s: "isoOpt (o_sunset cur) = Inr s"
    using isoOpt_valid[OF assms(5)] by blast
  show ?thesis
    by (simp add: parseCurrent_def bindE_def d ws r s firstDescription_def Let_def)
qed

lemma parseCurrent_no_weather:
  assumes "o_weather cur = []"
  shows "\<exists>e. parseCurrent t cur = Inl e"
  using assms
  by (cases "dateOf t (o_dt cur)") (simp_all add: parseCurrent_def bindE_def firstDescription_def)

lemma upToMaxCount_length: "length (upToMaxCount options xs) \<le> length xs"
  by (auto simp: upToMaxCount_def slice0_def split: option.splits)

lemma upToMaxCount_singleton:
  assumes "case options of None \<Rightarrow> True
           | Some opt \<Rightarrow> (case maxCount opt of None \<Rightarrow> True | Some n \<Rightarrow> 0 \<le> n)"
  shows "upToMaxCount options [x] = [x]"
proof (cases options)
  case None
  then show ?thesis by (simp add: upToMaxCount_def)
next
  case (Some opt)
  show ?thesis
  proof (cases "maxCount opt")
    case None
    with Some show ?thesis by (simp add: upToMaxCount_def truthy_def)
  next
    case (Some n)
    with \<open>options = Some opt\<close> assms have "0 \<le> n" by simp
    then have "n = 0 \<or> 1 \<le> n" by arith
    then show ?thesis
      using Some \<open>options = Some opt\<close>
      by (auto simp: upToMaxCount_def truthy_def slice0_def take_Cons' nat_eq_iff)
  qed
qed

lemma parseOWObservations_length:
  "parseOWObservations t owData = Inr obs \<Longrightarrow> length obs \<le> 1"
  by (auto simp: parseOWObservations_def split: option.splits sum.splits)

lemma fetchObservations_result:
  assumes "resolve ow w position bypassCache = (Inr owData, ow', w')"
  shows "fst (fetchObservations ow w position options bypassCache) =
           observationsOf (now w') options owData"
  using assms by (simp add: fetchObservations_def)

text \<open>
  Claim C9, as amended.  Whenever \<^verbatim>\<open>fetchObservations\<close> returns, its list has at
  most one element.  On a payload without \<^verbatim>\<open>current\<close> it returns the empty list.
  On a payload whose \<^verbatim>\<open>current\<close> has an empty \<^verbatim>\<open>weather\<close> array it
  does not return: it throws its parsing error.  On a payload whose \<^verbatim>\<open>current\<close>
  has a first \<^verbatim>\<open>weather\<close> element and valid timestamps it returns exactly one
  record, provided \<^verbatim>\<open>maxCount\<close> is not negative.
\<close>

theorem fetchObservations_at_most_one:
  assumes "resolve ow w position bypassCache = (Inr owData, ow', w')"
  shows "(fst (fetchObservations ow w position options bypassCache) = Inr obs \<longrightarrow>
            length obs \<le> 1)
       \<and> (owData = None \<or> (\<exists>d. owData = Some d \<and> current d = None) \<longrightarrow>
            fst (fetchObservations ow w position options bypassCache) = Inr [])
       \<and> (owData = Some d \<and> current d = Some cur \<and> o_weather cur = [] \<longrightarrow>
            fst (fetchObservations ow w position options bypassCache) =
              Inl (Error ''Error fetching / parsing weather data!''))
       \<and> (owData = Some d \<and> current d = Some cur \<and> o_weather cur \<noteq> [] \<and>
          validTime (now w') \<and> validStamp (o_dt cur) \<and> validStamp (o_sunrise cur) \<and>
          validStamp (o_sunset cur) \<and>
          (case options of None \<Rightarrow> True
           | Some opt \<Rightarrow> (case maxCount opt of None \<Rightarrow> True | Some n \<Rightarrow> 0 \<le> n)) \<longrightarrow>
            (\<exists>ob. fst (fetchObservations ow w position options bypassCache) = Inr [ob]))"
proof (intro conjI impI)
  note res = fetchObservations_result[OF assms]
  {
    assume "fst (fetchObservations ow w position options bypassCache) = Inr obs"
    then obtain xs where p: "parseOWObservations (now w') owData = Inr xs"
      and o: "obs = upToMaxCount options xs"
      by (auto simp: res observationsOf_def split: sum.splits)
    from parseOWObservations_length[OF p] upToMaxCount_length[of options xs] o
    show "length obs \<le> 1" by simp
  }
  {
    assume "owData = None \<or> (\<exists>d. owData = Some d \<and> current d = None)"
    then have "parseOWObservations (now w') owData = Inr []"
      by (auto simp: parseOWObservations_def)
    then show "fst (fetchObservations ow w position options bypassCache) = Inr []"
      using upToMaxCount_length[of options "[] :: WeatherData list"]
      by (simp add: res observationsOf_def)
  }
  {
    assume a: "owData = Some d \<and> current d = Some cur \<and> o_weather cur = []"
    then obtain e where "parseCurrent (now w') cur = Inl e"
      using parseCurrent_no_weather[of cur "now w'"] by blast
    with a show "fst (fetchObservations ow w position options bypassCache) =
                   Inl (Error ''Error fetching / parsing weather data!'')"
      by (simp add: res observationsOf_def parseOWObservations_def)
  }
  {
    assume a: "owData = Some d \<and> current d = Some cur \<and> o_weather cur \<noteq> [] \<and>
          validTime (now w') \<and> validStamp (o_dt cur) \<and> validStamp (o_sunrise cur) \<and>
          validStamp (o_sunset cur) \<and>
          (case options of None \<Rightarrow> True
           | Some opt \<Rightarrow> (case maxCount opt of None \<Rightarrow> True | Some n \<Rightarrow> 0 \<le> n))"
    then obtain ob where p: "parseCurrent (now w') cur = Inr ob"
      using parseCurrent_valid[of cur "now w'"] by blast
    from a have "upToMaxCount options [ob] = [ob]"
      by (intro upToMaxCount_singleton) simp
    with a p show "\<exists>ob. fst (fetchObservations ow w position options bypassCache) = Inr [ob]"
      by (simp add: res observationsOf_def parseOWObservations_def)
  }
qed

theorem fetchObservations_at_most_one_witness:
  "(\<exists>ob. fst (fetchObservations example_service
             (example_world\<lparr>responses := [Json example_response]\<rparr>) example_position
             (Some \<lparr>maxCount = Some 5, startDate = None\<rparr>) None) = Inr [ob])
   \<and> fst (fetchObservations example_service
            (example_world\<lparr>responses := [Json no_weather_response]\<rparr>) example_position
            (Some \<lparr>maxCount = Some 5, startDate = None\<rparr>) None) =
       Inl (Error ''Error fetching / parsing weather data!'')"
proof -
  let ?w = "example_world\<lparr>responses := [Json example_response]\<rparr>"
  let ?v = "example_world\<lparr>responses := [Json no_weather_response]\<rparr>"
  have c: "contains (wcache example_service) (now ?w) example_position = None"
          "contains (wcache example_service) (now ?v) example_position = None"
    using contains_example by simp_all
  have k: "cod example_response = None" "cod no_weather_response = None"
    by (simp_all add: example_response_def no_weather_response_def empty_response_def)
  have r1: "resolve example_service ?w example_position None =
      (Inr (Some example_response),
       example_service\<lparr>wcache := setEntry (wcache example_service) (now ?w)
          (calcId (wcache example_service) example_position) example_response\<rparr>,
       ?w\<lparr>requests := requests ?w @ [getUrl example_service example_position],
           responses := []\<rparr>)"
    using c(1) k(1) by (intro resolve_remote_success) simp_all
  have r2: "resolve example_service ?v example_position None =
      (Inr (Some no_weather_response),
       example_service\<lparr>wcache := setEntry (wcache example_service) (now ?v)
          (calcId (wcache example_service) example_position) no_weather_response\<rparr>,
       ?v\<lparr>requests := requests ?v @ [getUrl example_service example_position],
           responses := []\<rparr>)"
    using c(2) k(2) by (intro resolve_remote_success) simp_all
  have v: "validTime (now example_world)" "validStamp (o_dt example_current)"
          "validStamp (o_sunrise example_current)" "validStamp (o_sunset example_current)"
    by (simp_all add: validTime_def validStamp_def example_defs)
  have cur: "current example_response = Some example_current"
            "o_weather example_current \<noteq> []"
            "current no_weather_response = Some bare_observation"
            "o_weather bare_observation = []"
    by (simp_all add: example_defs no_weather_response_def)
  have a: "\<exists>ob. fst (fetchObservations example_service ?w example_position
             (Some \<lparr>maxCount = Some 5, startDate = None\<rparr>) None) = Inr [ob]"
    using fetchObservations_at_most_one
            [OF r1, where d = example_response and cur = example_current
               and options = "Some \<lparr>maxCount = Some 5, startDate = None\<rparr>"]
          v cur
    by simp
  have b: "fst (fetchObservations example_service ?v example_position
             (Some \<lparr>maxCount = Some 5, startDate = None\<rparr>) None) =
           Inl (Error ''Error fetching / parsing weather data!'')"
    using fetchObservations_at_most_one
            [OF r2, where d = no_weather_response and cur = bare_observation
               and options = "Some \<lparr>maxCount = Some 5, startDate = None\<rparr>"]
          cur
    by simp
  show ?thesis using a b by blast
qed

text \<open>The claim as it was stated fails on a response that has a \<^verbatim>\<open>current\<close> field
  with an empty \<^verbatim>\<open>weather\<close> array: the call throws instead of returning one
  observation.\<close>

theorem current_without_weather_counterexample:
  "map_option o_weather (current no_weather_response) = Some []
   \<and> fst (fetchObservations example_service
            (example_world\<lparr>responses := [Json no_weather_response]\<rparr>) example_position
            None None) =
       Inl (Error ''Error fetching / parsing weather data!'')"
proof
  show "map_option o_weather (current no_weather_response) = Some []"
    by (simp add: no_weather_response_def empty_response_def bare_observation_def)
  show "fst (fetchObservations example_service
            (example_world\<lparr>responses := [Json no_weather_response]\<rparr>) example_position
            None None) =
       Inl (Error ''Error fetching / parsing weather data!'')"
    by code_simp
qed

subsection \<open>Warnings\<close>

lemma parseWarning_endTime:
  assumes "parseWarning a = Inr r" "w_start a = Some s" "s \<noteq> 0" "w_end a = Some e" "e \<noteq> 0"
  shows "endTime r = startTime r \<and> toISOString (s * 1000) = Inr (startTime r)"
  using assms
  by (auto simp: parseWarning_def bindE_def truthy_def dateTimes1000_def split: sum.splits)

lemma fetchWarnings_Inr:
  assumes "fetchWarnings ow w position bypassCache = (Inr ws, ow', w')"
  shows "\<exists>owData. resolve ow w position bypassCache = (Inr owData, ow', w') \<and>
                  parseOWWarnings owData = Inr ws"
  using assms
  by (auto simp: fetchWarnings_def warningsOf_def split: prod.splits sum.splits)

text \<open>
  Claim C10.  In the list \<^verbatim>\<open>fetchWarnings\<close> returns there is one warning per alert
  of the payload, and for an alert whose \<^verbatim>\<open>start\<close> and \<^verbatim>\<open>end\<close> are both
  nonzero the warning's \<^verbatim>\<open>endTime\<close> is the same string as its
  \<^verbatim>\<open>startTime\<close>: the ISO rendering of \<^verbatim>\<open>alert.start\<close>.
\<close>

theorem fetchWarnings_endTime_from_start:
  assumes "fetchWarnings ow w position bypassCache = (Inr ws, ow', w')"
      and "resolve ow w position bypassCache = (Inr (Some d), ow', w')"
      and "alerts d = Some as" and "i < length as"
      and "w_start (as ! i) = Some s" and "s \<noteq> 0"
      and "w_end (as ! i) = Some e" and "e \<noteq> 0"
  shows "length ws = length as \<and> endTime (ws ! i) = startTime (ws ! i) \<and>
         toISOString (s * 1000) = Inr (startTime (ws ! i))"
proof -
  from fetchWarnings_Inr[OF assms(1)] assms(2)
  have "parseOWWarnings (Some d) = Inr ws" by auto
  with assms(3) have t: "traverse parseWarning as = Inr ws"
    by (simp add: parseOWWarnings_def)
  from traverse_Inr[OF t] assms(4)
  have len: "length ws = length as" and p: "parseWarning (as ! i) = Inr (ws ! i)"
    by auto
  from parseWarning_endTime[OF p assms(5-8)] len show ?thesis by simp
qed

lemma gale_warnings:
  "fst (fetchWarnings example_service (example_world\<lparr>responses := [Json gale_response]\<rparr>)
          example_position None) =
     Inr [\<lparr>startTime = ''2023-11-14T22:13:20.000Z'', endTime = ''2023-11-14T22:13:20.000Z'',
           details = Some ''windy'', source = Some ''NWS'', warningType = Some ''Gale''\<rparr>]"
  by code_simp

theorem fetchWarnings_endTime_from_start_witness:
  "w_end example_alert = Some 1700003600
   \<and> toISOString (1700003600 * 1000) = Inr ''2023-11-14T23:13:20.000Z''
   \<and> map endTime (projr (fst (fetchWarnings example_service
        (example_world\<lparr>responses := [Json gale_response]\<rparr>) example_position None))) =
       [''2023-11-14T22:13:20.000Z'']
   \<and> toISOString (1700000000 * 1000) = Inr ''2023-11-14T22:13:20.000Z''"
proof -
  let ?w = "example_world\<lparr>responses := [Json gale_response]\<rparr>"
  let ?ws = "[\<lparr>startTime = ''2023-11-14T22:13:20.000Z'', endTime = ''2023-11-14T22:13:20.000Z'',
           details = Some ''windy'', source = Some ''NWS'', warningType = Some ''Gale''\<rparr>]"
  have c: "contains (wcache example_service) (now ?w) example_position = None"
    using contains_example by simp
  have k: "cod gale_response = None"
    by (simp add: gale_response_def empty_response_def)
  have r: "resolve example_service ?w example_position None =
      (Inr (Some gale_response),
       example_service\<lparr>wcache := setEntry (wcache example_service) (now ?w)
          (calcId (wcache example_service) example_position) gale_response\<rparr>,
       ?w\<lparr>requests := requests ?w @ [getUrl example_service example_position],
           responses := []\<rparr>)"
    using c k by (intro resolve_remote_success) simp_all
  have f: "fetchWarnings example_service ?w example_position None =
      (Inr ?ws,
       example_service\<lparr>wcache := setEntry (wcache example_service) (now ?w)
          (calcId (wcache example_service) example_position) gale_response\<rparr>,
       ?w\<lparr>requests := requests ?w @ [getUrl example_service example_position],
           responses := []\<rparr>)"
    using gale_warnings fetchWarnings_state[of example_service ?w example_position None] r
    by (simp add: prod_eq_iff)
  have al: "alerts gale_response = Some [example_alert]"
    by (simp add: gale_response_def empty_response_def)
  have i: "(0::nat) < length [example_alert]" by simp
  have s: "w_start ([example_alert] ! 0) = Some 1700000000" "(1700000000::int) \<noteq> 0"
    by (simp_all add: example_alert_def)
  have e: "w_end ([example_alert] ! 0) = Some 1700003600" "(1700003600::int) \<noteq> 0"
    by (simp_all add: example_alert_def)
  have later: "toISOString (1700003600 * 1000) = Inr ''2023-11-14T23:13:20.000Z''"
    by code_simp
  show ?thesis
    using fetchWarnings_endTime_from_start[OF f r al i s e] e(1) later
    by (simp add: f)
qed

section \<open>The scheduler\<close>

subsection \<open>What a gateway call leaves alone\<close>

lemma resolve_service:
  "maxAge (wcache (fst (snd (resolve ow w position bypassCache)))) = maxAge (wcache ow) \<and>
   settings (fst (snd (resolve ow w position bypassCache))) = settings ow \<and>
   calcId (wcache (fst (snd (resolve ow w position bypassCache)))) = calcId (wcache ow)"
proof (cases "bypassCache = Some True \<or> contains (wcache ow) (now w) position = None")
  case True
  show ?thesis
    using resolve_remote[OF True] fetchData_service[of ow w position] by simp
next
  case False
  then obtain i where "bypassCache \<noteq> Some True"
    and "contains (wcache ow) (now w) position = Some i"
    by auto
  from resolve_hit[OF this] show ?thesis by simp
qed

lemma fetchObservations_bypass_world:
  "snd (snd (fetchObservations ow w position options (Some True))) =
     w\<lparr>requests := requests w @ [getUrl ow position], responses := tl (responses w)\<rparr>"
  using resolve_remote[of "Some True" ow w position]
  by (simp add: fetchObservations_state fetchData_world)

lemma fetchObservations_bypass_cases:
  obtains r ow' where
    "fetchObservations ow w position options (Some True) =
       (r, ow', w\<lparr>requests := requests w @ [getUrl ow position], responses := tl (responses w)\<rparr>)"
    "maxAge (wcache ow') = maxAge (wcache ow)"
proof -
  obtain r ow' w' where f: "fetchObservations ow w position options (Some True) = (r, ow', w')"
    by (cases "fetchObservations ow w position options (Some True)")
  have "w' = w\<lparr>requests := requests w @ [getUrl ow position], responses := tl (responses w)\<rparr>"
    using fetchObservations_bypass_world[of ow w position options] f by simp
  moreover have "snd (resolve ow w position (Some True)) = (ow', w')"
    using fetchObservations_state[of ow w position options "Some True"] f by simp
  then have "fst (snd (resolve ow w position (Some True))) = ow'"
    by simp
  then have "maxAge (wcache ow') = maxAge (wcache ow)"
    using resolve_service[of ow w position "Some True"] by simp
  ultimately show thesis using that f by blast
qed

lemma fetchObservations_clearTimeout:
  "fetchObservations ow (clearTimeout w h) position options bypassCache =
     (case fetchObservations ow w position options bypassCache of
        (r, ow', w') \<Rightarrow> (r, ow', clearTimeout w' h))"
  by (simp add: fetchObservations_def resolve_def fetchData_def fetch_def clearTimeout_def
        Let_def split: list.splits FetchOutcome.splits option.splits sum.splits)

subsection \<open>The \<^verbatim>\<open>try\<close> block, by the outcome of the fetch\<close>

lemma tryFetch_failure:
  assumes "weatherService s = Some ow"
      and "fetchObservations ow w pos None (Some True) = (Inl e, ow', w')"
  shows "tryFetch s w pos =
           (s\<lparr>weatherService := Some ow', retryTimer := Some (next_handle w')\<rparr>,
            w'\<lparr>timeouts := timeouts w' @
                  [\<lparr>handle = next_handle w', due = now w' + 10000, kind = FetchRetry\<rparr>],
                next_handle := next_handle w' + 1\<rparr>)"
  using assms by (simp add: tryFetch_def setTimeout_def retry_interval_def)

lemma tryFetch_success:
  assumes "weatherService s = Some ow"
      and "fetchObservations ow w pos None (Some True) = (Inr (ob # obs), ow', w')"
  shows "tryFetch s w pos =
           (s\<lparr>weatherService := Some ow', retry_count := 0, lastFetch := Some (now w'),
               lastWake := Some (now w'), timer := Some (next_handle w')\<rparr>,
            w'\<lparr>messages := messages w' @ [(''meteo.openweather'', deltaValues pos ob)],
                intervals := intervals w' @ [next_handle w'],
                next_handle := next_handle w' + 1\<rparr>)"
  using assms by (simp add: tryFetch_def setInterval_def emitMeteoDeltas_def)

lemma tryFetch_nothing_observed:
  assumes "weatherService s = Some ow"
      and "fetchObservations ow w pos None (Some True) = (Inr [], ow', w')"
  shows "tryFetch s w pos =
           (s\<lparr>weatherService := Some ow', retry_count := 0, lastFetch := Some (now w'),
               lastWake := Some (now w'), retryTimer := Some (next_handle w')\<rparr>,
            w'\<lparr>timeouts := timeouts w' @
                  [\<lparr>handle = next_handle w', due = now w' + 10000, kind = FetchRetry\<rparr>],
                next_handle := next_handle w' + 1\<rparr>)"
  using assms
  by (simp add: tryFetch_def setTimeout_def retry_interval_def emitMeteoDeltas_def)



subsection \<open>The two thresholds after initialisation\<close>







subsection \<open>The periodic timer and its watchdog\<close>

text \<open>A successful poll ends with \<^verbatim>\<open>setInterval\<close>, whether or not
  \<^verbatim>\<open>timer\<close> already holds an armed timer.\<close>

lemma success_arms_another_timer:
  assumes "weatherService s = Some ow"
      and "fetchObservations ow w pos None (Some True) = (Inr (ob # obs), ow', w')"
  shows "intervals (snd (tryFetch s w pos)) = intervals w @ [next_handle w]
         \<and> retry_count (fst (tryFetch s w pos)) = 0
         \<and> lastFetch (fst (tryFetch s w pos)) = Some (now w)
         \<and> lastWake (fst (tryFetch s w pos)) = Some (now w)
         \<and> messages (snd (tryFetch s w pos)) =
             messages w @ [(''meteo.openweather'', deltaValues pos ob)]"
proof -
  have "w' = w\<lparr>requests := requests w @ [getUrl ow pos], responses := tl (responses w)\<rparr>"
    using fetchObservations_bypass_world[of ow w pos None] assms(2) by simp
  then show ?thesis
    using tryFetch_success[OF assms] by simp
qed

text \<open>The callback of the periodic timer polls after a failed watchdog check as it does
  after a passed one.\<close>

lemma wakeCallback_after_failed_check:
  assumes "\<not> watchdogOk s w"
  shows "wakeCallback s w =
           pollWeatherData (s\<lparr>lastWake := Some (now w)\<rparr>)
             (setPluginError (case timer s of None \<Rightarrow> w | Some h \<Rightarrow> clearInterval w h)
                ''Weather watch timer error!'')"
  using assms by (simp add: wakeCallback_def Let_def setPluginError_def clearInterval_def
                       split: option.splits)

text \<open>The later variant of the module does both differently: a poll never arms a timer, and
  the watchdog stops the module and returns before anything else is done.\<close>

lemma handleError_intervals:
  "set (intervals (snd (handleError s w))) \<subseteq> set (intervals w) \<and>
   requests (snd (handleError s w)) = requests w"
  by (auto simp: handleError_def stopWeather2_def clearInterval_def Let_def
           split: option.splits)

lemma pollWeatherData2_watchdog:
  assumes "runaway s w"
  shows "pollWeatherData2 s w =
           (s\<lparr>timer2 := None, lastFetch2 := Some (fetchInterval2 s - 1), lastWake2 := Some 0\<rparr>,
            setPluginError (case timer2 s of None \<Rightarrow> w | Some h \<Rightarrow> clearInterval w h)
              ''Weather timer stopped by watchdog!'')"
  using assms by (simp add: pollWeatherData2_def stopWeather2_def)

lemma initWeather2_armed:
  assumes "timer2 s \<noteq> None"
  shows "snd (initWeather2 s w config fresh) = w"
  using assms by (auto simp: initWeather2_def Let_def)

lemma pollWeatherData2_arms_no_timer:
  "set (intervals (snd (pollWeatherData2 s w))) \<subseteq> set (intervals w)"
proof (cases "runaway s w")
  case True
  then show ?thesis
    by (auto simp: pollWeatherData2_watchdog setPluginError_def clearInterval_def
             split: option.splits)
next
  case False
  let ?s1 = "s\<lparr>lastWake2 := Some (now w)\<rparr>"
  show ?thesis
  proof (cases "navigation_position w")
    case None
    with False handleError_intervals[of ?s1 w] show ?thesis
      by (simp add: pollWeatherData2_def Let_def)
  next
    case (Some pos)
    show ?thesis
    proof (cases "weatherService2 s")
      case None
      with False Some show ?thesis by (simp add: pollWeatherData2_def Let_def)
    next
      case ow: (Some ow)
      obtain r ow' where f: "fetchObservations ow w pos None (Some True) =
         (r, ow', w\<lparr>requests := requests w @ [getUrl ow pos], responses := tl (responses w)\<rparr>)"
        by (rule fetchObservations_bypass_cases)
      let ?w1 = "w\<lparr>requests := requests w @ [getUrl ow pos], responses := tl (responses w)\<rparr>"
      have h: "\<And>s'. set (intervals (snd (handleError s' ?w1))) \<subseteq> set (intervals w)"
        using handleError_intervals[of _ ?w1] by simp
      show ?thesis
        using False Some ow f h
        by (auto simp: pollWeatherData2_def Let_def setPluginError_def emitMeteoDeltas_def
                 case_prod_beta split: sum.splits list.splits)
    qed
  qed
qed

text \<open>
  Claim C7 on the code.  The plugin is started with a poll interval of 15 minutes and a
  provider that answers; the first poll arms timer 1.  Fifteen minutes later, on a tick of
  that timer, the second poll succeeds and arms timer 2 while timer 1 stays armed: two
  periodic wake timers are active.
\<close>

theorem two_wake_timers_after_second_poll:
  "intervals (snd started) = [1] \<and> timer (fst started) = Some 1
   \<and> length (requests (snd started)) = 1
   \<and> intervals (snd second_poll) = [1, 2] \<and> timer (fst second_poll) = Some 2
   \<and> length (requests (snd second_poll)) = 2
   \<and> length (messages (snd second_poll)) = 2
   \<and> retry_count (fst second_poll) = 0
   \<and> lastFetch (fst second_poll) = Some (now (snd second_poll))"
  by code_simp

text \<open>
  Claim C4 on the code.  In the minute after the second poll timer 1 fires, and timer 2
  fires at the same instant, no time after the last wake: the watchdog check fails.  The
  callback reports the error and clears the timer held in \<^verbatim>\<open>timer\<close>, which is
  timer 2; timer 1 stays armed, the callback goes on to poll, and fourteen minutes later a
  tick of timer 1 sends the third request and arms a further timer.
\<close>

theorem watchdog_trip_does_not_stop:
  "intervals (snd before_trip) = [1, 2]
   \<and> \<not> watchdogOk (fst before_trip) (snd before_trip)
   \<and> pluginErrors (snd after_trip) = [''Weather watch timer error!'']
   \<and> intervals (snd after_trip) = [1]
   \<and> length (requests (snd after_trip)) = 2
   \<and> length (requests (snd later_on)) = 3
   \<and> intervals (snd later_on) = [1, 3]
   \<and> length (messages (snd later_on)) = 3"
  by code_simp

subsection \<open>Waiting for a position\<close>

lemma retries_dormant:
  assumes "filter (\<lambda>t. Some (handle t) = retryTimer s) (timeouts w) = []"
  shows "retries n (s, w) = (s, w)"
  using assms by (cases n) simp_all












subsection \<open>Retrying a failed fetch\<close>

lemma cancelRetry_fields:
  "timeouts (cancelRetry s w) = filter (\<lambda>t. Some (handle t) \<noteq> retryTimer s) (timeouts w)"
  "next_handle (cancelRetry s w) = next_handle w"
  "intervals (cancelRetry s w) = intervals w"
  "requests (cancelRetry s w) = requests w"
  "responses (cancelRetry s w) = responses w"
  "now (cancelRetry s w) = now w"
  "navigation_position (cancelRetry s w) = navigation_position w"
  by (cases "retryTimer s"; simp add: cancelRetry_def clearTimeout_def)+

lemma fetchObservations_cancelRetry:
  "fetchObservations ow (cancelRetry s w) position options bypassCache =
     (case fetchObservations ow w position options bypassCache of
        (r, ow', w') \<Rightarrow> (r, ow', cancelRetry s w'))"
  by (cases "retryTimer s")
     (simp_all add: cancelRetry_def fetchObservations_clearTimeout split: prod.splits)

lemma notDue_later:
  assumes "\<not> notDue s w" "lastFetch s' = lastFetch s" "fetchInterval s' = fetchInterval s"
      and "now w \<le> now w'"
  shows "\<not> notDue s' w'"
  using assms by (auto simp: notDue_def split: option.splits)

lemma notDue_cancelRetry:
  "notDue (s\<lparr>noPosRetry_count := c\<rparr>) (cancelRetry s' w) = notDue s w"
  by (cases "retryTimer s'")
     (simp_all add: notDue_def cancelRetry_def clearTimeout_def split: option.splits)

lemma cancelRetry_counter:
  "cancelRetry (s\<lparr>noPosRetry_count := c\<rparr>) w = cancelRetry s w"
  by (simp add: cancelRetry_def)

lemma poll_present:
  assumes "navigation_position w = Some pos" "\<not> notDue s w"
  shows "pollWeatherData s w =
           (if retry_count s < 3
            then tryFetch (s\<lparr>noPosRetry_count := 0, retry_count := retry_count s + 1\<rparr>)
                   (cancelRetry s w) pos
            else (s\<lparr>noPosRetry_count := 0, retry_count := 0\<rparr>, cancelRetry s w))"
  unfolding pollWeatherData_def Let_def
  using assms by (simp add: notDue_cancelRetry cancelRetry_counter retry_maxCount_def)

lemma poll_attempt_fails:
  assumes "navigation_position w = Some pos" "weatherService s = Some ow" "\<not> notDue s w"
      and "retry_count s < 3"
      and "fetchObservations ow w pos None (Some True) = (Inl e, ow', w')"
  shows "pollWeatherData s w =
           (s\<lparr>noPosRetry_count := 0, retry_count := retry_count s + 1,
               weatherService := Some ow', retryTimer := Some (next_handle w)\<rparr>,
            w\<lparr>requests := requests w @ [getUrl ow pos], responses := tl (responses w),
               timeouts := filter (\<lambda>t. Some (handle t) \<noteq> retryTimer s) (timeouts w) @
                 [\<lparr>handle = next_handle w, due = now w + 10000, kind = FetchRetry\<rparr>],
               next_handle := next_handle w + 1\<rparr>)"
proof -
  let ?s1 = "s\<lparr>noPosRetry_count := 0, retry_count := retry_count s + 1\<rparr>"
  have w': "w' = w\<lparr>requests := requests w @ [getUrl ow pos], responses := tl (responses w)\<rparr>"
    using fetchObservations_bypass_world[of ow w pos None] assms(5) by simp
  have f: "fetchObservations ow (cancelRetry s w) pos None (Some True) =
             (Inl e, ow', cancelRetry s w')"
    using assms(5) by (simp add: fetchObservations_cancelRetry)
  have s1: "weatherService ?s1 = Some ow" using assms(2) by simp
  have c: "cancelRetry s w' =
             w\<lparr>requests := requests w @ [getUrl ow pos], responses := tl (responses w),
                timeouts := filter (\<lambda>t. Some (handle t) \<noteq> retryTimer s) (timeouts w)\<rparr>"
    by (cases "retryTimer s") (simp_all add: w' cancelRetry_def clearTimeout_def)
  show ?thesis
    using poll_present[OF assms(1,3)] assms(4) tryFetch_failure[OF s1 f]
    by (simp add: c)
qed

lemma poll_attempt_succeeds:
  assumes "navigation_position w = Some pos" "weatherService s = Some ow" "\<not> notDue s w"
      and "retry_count s < 3"
      and "fst (fetchObservations ow w pos None (Some True)) = Inr obs"
  shows "retry_count (fst (pollWeatherData s w)) = 0 \<and>
         lastFetch (fst (pollWeatherData s w)) = Some (now w) \<and>
         lastWake (fst (pollWeatherData s w)) = Some (now w) \<and>
         requests (snd (pollWeatherData s w)) = requests w @ [getUrl ow pos]"
proof -
  let ?s1 = "s\<lparr>noPosRetry_count := 0, retry_count := retry_count s + 1\<rparr>"
  obtain ow' w' where g: "fetchObservations ow w pos None (Some True) = (Inr obs, ow', w')"
    using assms(5) by (cases "fetchObservations ow w pos None (Some True)") auto
  have w': "w' = w\<lparr>requests := requests w @ [getUrl ow pos], responses := tl (responses w)\<rparr>"
    using fetchObservations_bypass_world[of ow w pos None] g by simp
  have f: "fetchObservations ow (cancelRetry s w) pos None (Some True) =
             (Inr obs, ow', cancelRetry s w')"
    using g by (simp add: fetchObservations_cancelRetry)
  have s1: "weatherService ?s1 = Some ow" using assms(2) by simp
  have p: "pollWeatherData s w = tryFetch ?s1 (cancelRetry s w) pos"
    using poll_present[OF assms(1,3)] assms(4) by simp
  show ?thesis
  proof (cases obs)
    case Nil
    with tryFetch_nothing_observed[OF s1, of "cancelRetry s w" pos ow' "cancelRetry s w'"] f
    show ?thesis by (simp add: p cancelRetry_fields w')
  next
    case (Cons ob rest)
    with tryFetch_success[OF s1, of "cancelRetry s w" pos ob rest ow' "cancelRetry s w'"] f
    show ?thesis by (simp add: p cancelRetry_fields w')
  qed
qed

lemma poll_exhausted:
  assumes "navigation_position w = Some pos" "\<not> notDue s w" "3 \<le> retry_count s"
  shows "pollWeatherData s w = (s\<lparr>noPosRetry_count := 0, retry_count := 0\<rparr>, cancelRetry s w)"
  using poll_present[OF assms(1,2)] assms(3) by simp

lemma unreachable:
  assumes "responses w = []"
  shows "fetchObservations ow w pos None (Some True) =
           (Inl (Error ''Error fetching / parsing weather data!''), ow,
            w\<lparr>requests := requests w @ [getUrl ow pos]\<rparr>)"
  using assms by (simp add: fetchObservations_def resolve_def fetchData_def fetch_def)

lemma failing_chain:
  assumes "navigation_position w = Some pos" "weatherService s = Some ow" "\<not> notDue s w"
      and "responses w = []"
      and "timeouts w = [\<lparr>handle = h, due = d, kind = k\<rparr>]" "now w \<le> d"
      and "retryTimer s = Some h" "retry_count s = c" "1 \<le> c" "c \<le> 3"
  shows "retry_count (fst (retries n (s, w))) = (if c + n \<le> 3 then c + n else 0) \<and>
         length (timeouts (snd (retries n (s, w)))) = (if c + n \<le> 3 then 1 else 0) \<and>
         requests (snd (retries n (s, w))) =
           requests w @ replicate (min n (3 - c)) (getUrl ow pos) \<and>
         intervals (snd (retries n (s, w))) = intervals w"
  using assms
proof (induction n arbitrary: s w h d k c)
  case 0
  then show ?case by simp
next
  case (Suc n)
  let ?w1 = "clearTimeout (w\<lparr>now := d\<rparr>) h"
  have w1: "navigation_position ?w1 = Some pos" "timeouts ?w1 = []" "responses ?w1 = []"
           "next_handle ?w1 = next_handle w"
           "requests ?w1 = requests w" "intervals ?w1 = intervals w" "now ?w1 = d"
    using Suc.prems by (simp_all add: clearTimeout_def)
  have nd: "\<not> notDue s ?w1"
    by (rule notDue_later[OF Suc.prems(3)]) (simp_all add: w1 Suc.prems(6))
  have step: "retries (Suc n) (s, w) = retries n (pollWeatherData s ?w1)"
    using Suc.prems by (simp add: fire_def)
  have cr: "cancelRetry s ?w1 = ?w1"
    using Suc.prems by (simp add: cancelRetry_def clearTimeout_def)
  show ?case
  proof (cases "c = 3")
    case True
    have p: "pollWeatherData s ?w1 = (s\<lparr>noPosRetry_count := 0, retry_count := 0\<rparr>, ?w1)"
      using poll_exhausted[OF w1(1) nd] True Suc.prems cr by simp
    have "retries n (s\<lparr>noPosRetry_count := 0, retry_count := 0\<rparr>, ?w1) =
            (s\<lparr>noPosRetry_count := 0, retry_count := 0\<rparr>, ?w1)"
      using w1 by (intro retries_dormant) simp
    then have eq: "retries (Suc n) (s, w) = (s\<lparr>noPosRetry_count := 0, retry_count := 0\<rparr>, ?w1)"
      by (simp only: step p)
    show ?thesis
      unfolding eq using True Suc.prems w1 by simp
  next
    case False
    with Suc.prems have lt: "retry_count s < 3" by simp
    let ?s2 = "s\<lparr>noPosRetry_count := 0, retry_count := retry_count s + 1,
                 weatherService := Some ow, retryTimer := Some (next_handle w)\<rparr>"
    let ?w2 = "?w1\<lparr>requests := requests w @ [getUrl ow pos], responses := [],
                   timeouts := [\<lparr>handle = next_handle w, due = d + 10000, kind = FetchRetry\<rparr>],
                   next_handle := next_handle w + 1\<rparr>"
    have u: "fetchObservations ow ?w1 pos None (Some True) =
               (Inl (Error ''Error fetching / parsing weather data!''), ow,
                ?w1\<lparr>requests := requests ?w1 @ [getUrl ow pos]\<rparr>)"
      using w1 by (intro unreachable) simp
    have p: "pollWeatherData s ?w1 = (?s2, ?w2)"
      using poll_attempt_fails[OF w1(1) Suc.prems(2) nd lt u] w1 by simp
    have ih: "retry_count (fst (retries n (?s2, ?w2))) = (if Suc c + n \<le> 3 then Suc c + n else 0) \<and>
         length (timeouts (snd (retries n (?s2, ?w2)))) = (if Suc c + n \<le> 3 then 1 else 0) \<and>
         requests (snd (retries n (?s2, ?w2))) =
           requests ?w2 @ replicate (min n (3 - Suc c)) (getUrl ow pos) \<and>
         intervals (snd (retries n (?s2, ?w2))) = intervals ?w2"
    proof (rule Suc.IH[where h = "next_handle w" and d = "d + 10000" and k = FetchRetry])
      show "\<not> notDue ?s2 ?w2"
        by (rule notDue_later[OF nd]) simp_all
    qed (use Suc.prems False w1 in simp_all)
    have eq: "retries (Suc n) (s, w) = retries n (?s2, ?w2)"
      by (simp only: step p)
    have m: "min (Suc n) (3 - c) = Suc (min n (3 - Suc c))"
      using lt Suc.prems by simp
    show ?thesis
      unfolding eq using ih Suc.prems w1 lt
      by (simp add: m)
  qed
qed

text \<open>
  Claim C6.  At a wake with a position and a fetch that is due: an attempt that fails
  increments the counter and schedules one retry, due after the fetch retry interval of ten
  seconds; an attempt that succeeds resets the counter to zero; at a counter of 3 no request
  is sent, the counter is reset to zero and no timer is scheduled.  With an unreachable
  provider, started from zero, the counter stands at 3 after the third failure with the
  third retry timer pending; when that timer fires the counter is back at zero, nothing is
  pending, exactly three requests have been sent, and no periodic timer has been touched.
\<close>

theorem fetch_retry_loop:
  assumes "navigation_position w = Some pos" "weatherService s = Some ow" "\<not> notDue s w"
  shows "(retry_count s < 3 \<and> fst (fetchObservations ow w pos None (Some True)) = Inl e \<longrightarrow>
            retry_count (fst (pollWeatherData s w)) = retry_count s + 1 \<and>
            retryTimer (fst (pollWeatherData s w)) = Some (next_handle w) \<and>
            timeouts (snd (pollWeatherData s w)) =
              filter (\<lambda>t. Some (handle t) \<noteq> retryTimer s) (timeouts w) @
              [\<lparr>handle = next_handle w, due = now w + 10000, kind = FetchRetry\<rparr>] \<and>
            intervals (snd (pollWeatherData s w)) = intervals w \<and>
            requests (snd (pollWeatherData s w)) = requests w @ [getUrl ow pos])
       \<and> (retry_count s < 3 \<and> fst (fetchObservations ow w pos None (Some True)) = Inr obs \<longrightarrow>
            retry_count (fst (pollWeatherData s w)) = 0 \<and>
            lastFetch (fst (pollWeatherData s w)) = Some (now w) \<and>
            requests (snd (pollWeatherData s w)) = requests w @ [getUrl ow pos])
       \<and> (3 \<le> retry_count s \<longrightarrow>
            retry_count (fst (pollWeatherData s w)) = 0 \<and>
            requests (snd (pollWeatherData s w)) = requests w \<and>
            timeouts (snd (pollWeatherData s w)) =
              filter (\<lambda>t. Some (handle t) \<noteq> retryTimer s) (timeouts w) \<and>
            intervals (snd (pollWeatherData s w)) = intervals w)
       \<and> (retry_count s = 0 \<and> responses w = [] \<and> timeouts w = [] \<longrightarrow>
            retry_count (fst (retries 2 (pollWeatherData s w))) = 3 \<and>
            length (timeouts (snd (retries 2 (pollWeatherData s w)))) = 1 \<and>
            retry_count (fst (retries (3 + n) (pollWeatherData s w))) = 0 \<and>
            timeouts (snd (retries (3 + n) (pollWeatherData s w))) = [] \<and>
            requests (snd (retries (3 + n) (pollWeatherData s w))) =
              requests w @ [getUrl ow pos, getUrl ow pos, getUrl ow pos] \<and>
            intervals (snd (retries (3 + n) (pollWeatherData s w))) = intervals w)"
proof (intro conjI impI)
  {
    assume a: "retry_count s < 3 \<and> fst (fetchObservations ow w pos None (Some True)) = Inl e"
    then obtain ow' w' where f: "fetchObservations ow w pos None (Some True) = (Inl e, ow', w')"
      by (cases "fetchObservations ow w pos None (Some True)") auto
    note p = poll_attempt_fails[OF assms _ f]
    show "retry_count (fst (pollWeatherData s w)) = retry_count s + 1"
      using a by (simp add: p)
    show "retryTimer (fst (pollWeatherData s w)) = Some (next_handle w)"
      using a by (simp add: p)
    show "timeouts (snd (pollWeatherData s w)) =
              filter (\<lambda>t. Some (handle t) \<noteq> retryTimer s) (timeouts w) @
              [\<lparr>handle = next_handle w, due = now w + 10000, kind = FetchRetry\<rparr>]"
      using a by (simp add: p)
    show "intervals (snd (pollWeatherData s w)) = intervals w"
      using a by (simp add: p)
    show "requests (snd (pollWeatherData s w)) = requests w @ [getUrl ow pos]"
      using a by (simp add: p)
  }
  {
    assume a: "retry_count s < 3 \<and> fst (fetchObservations ow w pos None (Some True)) = Inr obs"
    then have r: "retry_count (fst (pollWeatherData s w)) = 0 \<and>
         lastFetch (fst (pollWeatherData s w)) = Some (now w) \<and>
         lastWake (fst (pollWeatherData s w)) = Some (now w) \<and>
         requests (snd (pollWeatherData s w)) = requests w @ [getUrl ow pos]"
      using poll_attempt_succeeds[OF assms, of obs] by blast
    show "retry_count (fst (pollWeatherData s w)) = 0" using r by blast
    show "lastFetch (fst (pollWeatherData s w)) = Some (now w)" using r by blast
    show "requests (snd (pollWeatherData s w)) = requests w @ [getUrl ow pos]" using r by blast
  }
  {
    assume a: "3 \<le> retry_count s"
    note p = poll_exhausted[OF assms(1,3) a]
    show "retry_count (fst (pollWeatherData s w)) = 0" by (simp add: p)
    show "requests (snd (pollWeatherData s w)) = requests w"
      by (simp add: p cancelRetry_fields)
    show "timeouts (snd (pollWeatherData s w)) =
              filter (\<lambda>t. Some (handle t) \<noteq> retryTimer s) (timeouts w)"
      by (simp add: p cancelRetry_fields)
    show "intervals (snd (pollWeatherData s w)) = intervals w"
      by (simp add: p cancelRetry_fields)
  }
  {
    assume a: "retry_count s = 0 \<and> responses w = [] \<and> timeouts w = []"
    let ?s1 = "s\<lparr>noPosRetry_count := 0, retry_count := retry_count s + 1,
                 weatherService := Some ow, retryTimer := Some (next_handle w)\<rparr>"
    let ?w1 = "w\<lparr>requests := requests w @ [getUrl ow pos], responses := tl (responses w),
               timeouts := filter (\<lambda>t. Some (handle t) \<noteq> retryTimer s) (timeouts w) @
                 [\<lparr>handle = next_handle w, due = now w + 10000, kind = FetchRetry\<rparr>],
               next_handle := next_handle w + 1\<rparr>"
    have u: "fetchObservations ow w pos None (Some True) =
               (Inl (Error ''Error fetching / parsing weather data!''), ow,
                w\<lparr>requests := requests w @ [getUrl ow pos]\<rparr>)"
      using a by (intro unreachable) simp
    have p: "pollWeatherData s w = (?s1, ?w1)"
      using poll_attempt_fails[OF assms _ u] a by simp
    have nd: "\<not> notDue ?s1 ?w1"
      by (rule notDue_later[OF assms(3)]) simp_all
    have c: "\<And>m. retry_count (fst (retries m (?s1, ?w1))) = (if 1 + m \<le> 3 then 1 + m else 0) \<and>
         length (timeouts (snd (retries m (?s1, ?w1)))) = (if 1 + m \<le> 3 then 1 else 0) \<and>
         requests (snd (retries m (?s1, ?w1))) =
           requests ?w1 @ replicate (min m (3 - 1)) (getUrl ow pos) \<and>
         intervals (snd (retries m (?s1, ?w1))) = intervals ?w1"
    proof -
      fix m
      show "retry_count (fst (retries m (?s1, ?w1))) = (if 1 + m \<le> 3 then 1 + m else 0) \<and>
         length (timeouts (snd (retries m (?s1, ?w1)))) = (if 1 + m \<le> 3 then 1 else 0) \<and>
         requests (snd (retries m (?s1, ?w1))) =
           requests ?w1 @ replicate (min m (3 - 1)) (getUrl ow pos) \<and>
         intervals (snd (retries m (?s1, ?w1))) = intervals ?w1"
        using a assms(1) nd
        by (intro failing_chain[where h = "next_handle w" and d = "now w + 10000"
                                  and k = FetchRetry]) simp_all
    qed
    show "retry_count (fst (retries 2 (pollWeatherData s w))) = 3"
      using c[of 2] by (simp add: p)
    show "length (timeouts (snd (retries 2 (pollWeatherData s w)))) = 1"
      using c[of 2] by (simp add: p)
    show "retry_count (fst (retries (3 + n) (pollWeatherData s w))) = 0"
      using c[of "3 + n"] by (simp add: p)
    show "timeouts (snd (retries (3 + n) (pollWeatherData s w))) = []"
      using c[of "3 + n"] by (simp add: p)
    show "requests (snd (retries (3 + n) (pollWeatherData s w))) =
              requests w @ [getUrl ow pos, getUrl ow pos, getUrl ow pos]"
      using c[of "3 + n"] by (simp add: p numeral_2_eq_2)
    show "intervals (snd (retries (3 + n) (pollWeatherData s w))) = intervals w"
      using c[of "3 + n"] by (simp add: p)
  }
qed

theorem fetch_retry_loop_witness:
  "retry_count (fst (retries 2 (pollWeatherData offline_module example_world))) = 3
   \<and> length (timeouts (snd (retries 2 (pollWeatherData offline_module example_world)))) = 1
   \<and> retry_count (fst (retries 3 (pollWeatherData offline_module example_world))) = 0
   \<and> timeouts (snd (retries 3 (pollWeatherData offline_module example_world))) = []
   \<and> requests (snd (retries 3 (pollWeatherData offline_module example_world))) =
       [OneCall 10 20 ''key'', OneCall 10 20 ''key'', OneCall 10 20 ''key'']
   \<and> intervals (snd (retries 3 (pollWeatherData offline_module example_world))) = []"
proof -
  have p: "navigation_position example_world = Some example_position"
    by (simp add: example_world_def)
  have o: "weatherService offline_module = Some example_service"
    by (simp add: offline_module_def)
  have d: "\<not> notDue offline_module example_world"
    by (simp add: notDue_def offline_module_def module_loaded_def)
  have a: "retry_count offline_module = 0 \<and> responses example_world = [] \<and>
           timeouts example_world = []"
    by (simp add: offline_module_def module_loaded_def example_world_def)
  have u: "getUrl example_service example_position = OneCall 10 20 ''key''"
    by (simp add: getUrl_def example_defs)
  have q: "requests example_world = []" "intervals example_world = []"
    by (simp_all add: example_world_def)
  have "retry_count (fst (retries 2 (pollWeatherData offline_module example_world))) = 3 \<and>
        length (timeouts (snd (retries 2 (pollWeatherData offline_module example_world)))) = 1 \<and>
        retry_count (fst (retries (3 + 0) (pollWeatherData offline_module example_world))) = 0 \<and>
        timeouts (snd (retries (3 + 0) (pollWeatherData offline_module example_world))) = [] \<and>
        requests (snd (retries (3 + 0) (pollWeatherData offline_module example_world))) =
          requests example_world @
          [getUrl example_service example_position, getUrl example_service example_position,
           getUrl example_service example_position] \<and>
        intervals (snd (retries (3 + 0) (pollWeatherData offline_module example_world))) =
          intervals example_world"
    using fetch_retry_loop[OF p o d, where n = 0] a by blast
  then show ?thesis
    by (simp add: u q)
qed

end
